theory Spec2Isabelle
  imports Main
begin

section \<open>Strings and header collections (fetch module, class Headers)\<close>

text \<open>
  JavaScript strings are modelled as \<open>string\<close>, whose characters are the code units
  below 256. \<open>toLowerCase\<close> maps the capitals of that range (A to Z, U+00C0 to U+00D6
  and U+00D8 to U+00DE) to their small letters and leaves every other character alone.
  \<open>toUpperCase\<close> maps the small letters a to z, U+00E0 to U+00F6 and U+00F8 to U+00FE
  to their capitals and U+00DF to \<open>SS\<close>; the capitals of U+00B5 and U+00FF lie outside
  the range, and these two characters are left as they are.
\<close>

definition toLowerCase_char :: "char \<Rightarrow> char" where
  "toLowerCase_char c =
     (let n = (of_char c :: nat)
      in if (65 \<le> n \<and> n \<le> 90) \<or> (192 \<le> n \<and> n \<le> 214) \<or> (216 \<le> n \<and> n \<le> 222)
         then char_of (n + 32) else c)"

definition toLowerCase :: "string \<Rightarrow> string" where
  "toLowerCase s = map toLowerCase_char s"

definition toUpperCase_char :: "char \<Rightarrow> string" where
  "toUpperCase_char c =
     (let n = (of_char c :: nat)
      in if (97 \<le> n \<and> n \<le> 122) \<or> (224 \<le> n \<and> n \<le> 246) \<or> (248 \<le> n \<and> n \<le> 254)
         then [char_of (n - 32)]
         else if n = 223 then ''SS'' else [c])"

definition toUpperCase :: "string \<Rightarrow> string" where
  "toUpperCase s = concat (map toUpperCase_char s)"

abbreviation CR :: char where "CR \<equiv> CHR 0x0D"
abbreviation LF :: char where "LF \<equiv> CHR 0x0A"

text \<open>
  \<^verbatim>\<open>String(value).replace(/\r\n/g, '')\<close>: one pass from the left that drops every
  occurrence of the two-character sequence CR LF and copies every other character.
\<close>

fun replace_crlf :: "string \<Rightarrow> string" where
  "replace_crlf (c # d # cs) =
     (if c = CR \<and> d = LF then replace_crlf cs else c # replace_crlf (d # cs))"
| "replace_crlf cs = cs"

text \<open>The field \<^verbatim>\<open>_headers\<close>: an array of name/value pairs in insertion order.\<close>

type_synonym Headers = "(string \<times> string) list"

definition Headers_append :: "string \<Rightarrow> string \<Rightarrow> Headers \<Rightarrow> Headers" where
  "Headers_append name v hs =
     (let caseInsensitive = toLowerCase name;
          castValue = replace_crlf v
      in hs @ [(caseInsensitive, castValue)])"

text \<open>
  The constructor appends every pair of its argument (another collection, an array of
  pairs, or the properties of an object, each in its own order) to an empty array.
\<close>

definition Headers_new :: "(string \<times> string) list \<Rightarrow> Headers" where
  "Headers_new init = foldl (\<lambda>hs (name, v). Headers_append name v hs) [] init"

definition Headers_delete :: "string \<Rightarrow> Headers \<Rightarrow> Headers" where
  "Headers_delete name hs =
     (let caseInsensitive = toLowerCase name
      in filter (\<lambda>header. fst header \<noteq> caseInsensitive) hs)"

definition Headers_get :: "Headers \<Rightarrow> string \<Rightarrow> string option" where
  "Headers_get hs name =
     (let caseInsensitive = toLowerCase name
      in case find (\<lambda>header. fst header = caseInsensitive) hs of
           Some header \<Rightarrow> Some (snd header)
         | None \<Rightarrow> None)"

definition Headers_getAll :: "Headers \<Rightarrow> string \<Rightarrow> string list" where
  "Headers_getAll hs name =
     (let caseInsensitive = toLowerCase name
      in map snd (filter (\<lambda>header. fst header = caseInsensitive) hs))"

definition Headers_has :: "Headers \<Rightarrow> string \<Rightarrow> bool" where
  "Headers_has hs name =
     (let caseInsensitive = toLowerCase name
      in find (\<lambda>header. fst header = caseInsensitive) hs \<noteq> None)"

text \<open>
  \<^verbatim>\<open>set\<close> rebuilds the array with \<^verbatim>\<open>reduce\<close>; the accumulator is the new array
  together with the flag \<^verbatim>\<open>replaced\<close> that the callback updates.
\<close>

definition set_reducer ::
  "string \<Rightarrow> string \<Rightarrow> Headers \<times> bool \<Rightarrow> string \<times> string \<Rightarrow> Headers \<times> bool" where
  "set_reducer caseInsensitive castValue acc header =
     (case acc of (headers, replaced) \<Rightarrow>
        if fst header \<noteq> caseInsensitive then (headers @ [header], replaced)
        else if \<not> replaced then (headers @ [(fst header, castValue)], True)
        else (headers, replaced))"

definition Headers_set :: "string \<Rightarrow> string \<Rightarrow> Headers \<Rightarrow> Headers" where
  "Headers_set name v hs =
     (let caseInsensitive = toLowerCase name;
          castValue = replace_crlf v;
          (headers, replaced) = foldl (set_reducer caseInsensitive castValue) ([], False) hs
      in if \<not> replaced then Headers_append name v headers else headers)"

text \<open>\<open>no_crlf v\<close>: neither CR nor LF occurs in \<open>v\<close>.\<close>

definition no_crlf :: "string \<Rightarrow> bool" where
  "no_crlf v = (CR \<notin> set v \<and> LF \<notin> set v)"

text \<open>The position of the first entry stored under a (lower-case) name.\<close>

definition first_match :: "string \<Rightarrow> Headers \<Rightarrow> nat" where
  "first_match ci hs = length (takeWhile (\<lambda>header. fst header \<noteq> ci) hs)"


section \<open>Properties of header collections\<close>

lemma foldl_set_reducer:
  "foldl (set_reducer ci cv) (acc, r) hs =
     (acc @ (if r then filter (\<lambda>h. fst h \<noteq> ci) hs
             else takeWhile (\<lambda>h. fst h \<noteq> ci) hs @
                  (case dropWhile (\<lambda>h. fst h \<noteq> ci) hs of [] \<Rightarrow> []
                   | h # rest \<Rightarrow> (ci, cv) # filter (\<lambda>h. fst h \<noteq> ci) rest)),
      r \<or> (\<exists>h \<in> set hs. fst h = ci))"
  by (induction hs arbitrary: acc r) (auto simp: set_reducer_def)

lemma Headers_set_eq:
  "Headers_set name v hs =
     (let ci = toLowerCase name; cv = replace_crlf v in
      takeWhile (\<lambda>h. fst h \<noteq> ci) hs @
        (ci, cv) # filter (\<lambda>h. fst h \<noteq> ci) (drop (Suc (first_match ci hs)) hs))"
proof -
  let ?ci = "toLowerCase name"
  let ?P = "\<lambda>h::string \<times> string. fst h \<noteq> ?ci"
  show ?thesis
  proof (cases "\<exists>h \<in> set hs. fst h = ?ci")
    case True
    then obtain h rest where d: "dropWhile ?P hs = h # rest"
      by (metis (mono_tags, lifting) dropWhile_eq_Nil_conv list.exhaust)
    have "drop (length (takeWhile ?P hs)) hs = h # rest"
      using d by (simp add: dropWhile_eq_drop)
    then have "drop (Suc (length (takeWhile ?P hs))) hs = rest"
      by (metis drop_Suc list.sel(3) tl_drop)
    with True d show ?thesis
      by (auto simp: Headers_set_def foldl_set_reducer Let_def first_match_def)
  next
    case False
    then have tw: "takeWhile ?P hs = hs" by (auto simp: takeWhile_eq_all_conv)
    have dw: "dropWhile ?P hs = []" using False by (auto simp: dropWhile_eq_Nil_conv)
    from False show ?thesis
      by (simp add: Headers_set_def foldl_set_reducer Let_def Headers_append_def
          first_match_def tw dw)
  qed
qed

lemma appends_eq:
  "foldl (\<lambda>hs (name, v). Headers_append name v hs) acc kvs
     = acc @ map (\<lambda>(k, w). (toLowerCase k, replace_crlf w)) kvs"
  by (induction kvs arbitrary: acc) (auto simp: Headers_append_def)

lemma Headers_new_eq: "Headers_new init = map (\<lambda>(k, w). (toLowerCase k, replace_crlf w)) init"
  by (simp add: Headers_new_def appends_eq)

lemma find_map_lower:
  "find (\<lambda>header. fst header = ci) (map (\<lambda>(k, w). (toLowerCase k, replace_crlf w)) init)
     = map_option (\<lambda>(k, w). (toLowerCase k, replace_crlf w)) (find (\<lambda>(k, w). toLowerCase k = ci) init)"
  by (induction init) auto

lemma length_takeWhile_lt:
  "\<exists>x \<in> set xs. \<not> P x \<Longrightarrow> length (takeWhile P xs) < length xs"
  by (induction xs) auto

lemma take_length_takeWhile: "take (length (takeWhile P xs)) xs = takeWhile P xs"
  by (induction xs) auto

lemma filter_split_first:
  "filter P xs = takeWhile P xs @ filter P (drop (Suc (length (takeWhile P xs))) xs)"
  by (induction xs) auto

lemma filter_neg_takeWhile: "filter (\<lambda>x. \<not> P x) (takeWhile P xs) = []"
  by (induction xs) auto

lemma filter_pos_takeWhile: "filter P (takeWhile P xs) = takeWhile P xs"
  by (induction xs) auto

lemma first_match_less:
  "\<exists>h \<in> set hs. fst h = ci \<Longrightarrow> first_match ci hs < length hs"
  unfolding first_match_def by (rule length_takeWhile_lt) simp

lemma Headers_set_take:
  "take (first_match (toLowerCase name) hs) (Headers_set name v hs)
     = take (first_match (toLowerCase name) hs) hs"
  by (simp add: Headers_set_eq Let_def first_match_def take_length_takeWhile)

lemma Headers_set_nth:
  "Headers_set name v hs ! first_match (toLowerCase name) hs = (toLowerCase name, replace_crlf v)"
  by (simp add: Headers_set_eq Let_def first_match_def nth_append)

lemma Headers_set_count:
  "length (filter (\<lambda>h. fst h = toLowerCase name) (Headers_set name v hs)) = 1"
  using filter_neg_takeWhile [of "\<lambda>h. fst h \<noteq> toLowerCase name" hs]
  by (simp add: Headers_set_eq Let_def)

lemma Headers_set_others:
  "filter (\<lambda>h. fst h \<noteq> toLowerCase name) (Headers_set name v hs) =
   filter (\<lambda>h. fst h \<noteq> toLowerCase name) hs"
proof -
  let ?P = "\<lambda>h::string \<times> string. fst h \<noteq> toLowerCase name"
  have "filter ?P (Headers_set name v hs)
        = takeWhile ?P hs @ filter ?P (drop (Suc (length (takeWhile ?P hs))) hs)"
    by (simp add: Headers_set_eq Let_def first_match_def filter_pos_takeWhile)
  also have "\<dots> = filter ?P hs"
    by (rule filter_split_first [symmetric])
  finally show ?thesis .
qed


lemma Headers_get_set: "Headers_get (Headers_set name v hs) name = Some (replace_crlf v)"
proof -
  have "find (\<lambda>h. fst h = ci) (takeWhile (\<lambda>h. fst h \<noteq> ci) xs @ (ci, cv) # ys) = Some (ci, cv)"
    for ci :: string and cv :: string and xs ys
    by (induction xs) auto
  then show ?thesis by (simp add: Headers_get_def Headers_set_eq Let_def)
qed

text \<open>
  Claim C5. Two names that agree up to letter case are the same name for \<open>get\<close>,
  \<open>has\<close>, \<open>delete\<close> and \<open>set\<close>. On a collection built by appending the pairs
  \<open>init\<close>, \<open>get\<close> answers with the stored form of the first value appended under any
  casing of the name, or with \<open>None\<close> (JavaScript \<open>null\<close>) when there is none. After
  one or more appends of one name (in any casings) to any collection, a single \<open>set\<close> of
  that name leaves exactly one entry under it, at the position of the first former
  match, and keeps every other entry in place.
\<close>

theorem headers_case_insensitive:
  assumes "toLowerCase n1 = toLowerCase n2"
  shows "Headers_get hs n1 = Headers_get hs n2 \<and>
         Headers_has hs n1 = Headers_has hs n2 \<and>
         Headers_delete n1 hs = Headers_delete n2 hs \<and>
         Headers_set n1 v hs = Headers_set n2 v hs \<and>
         Headers_get (Headers_new init) n1 =
           (case find (\<lambda>(k, w). toLowerCase k = toLowerCase n2) init of
              None \<Rightarrow> None | Some (k, w) \<Rightarrow> Some (replace_crlf w)) \<and>
         (kvs \<noteq> [] \<and> (\<forall>kv \<in> set kvs. toLowerCase (fst kv) = toLowerCase n1) \<longrightarrow>
            (let hs' = foldl (\<lambda>hs (k, w). Headers_append k w hs) hs kvs;
                 ci = toLowerCase n1;
                 i = first_match ci hs';
                 r = Headers_set n2 v hs'
             in i < length hs' \<and> take i r = take i hs' \<and> r ! i = (ci, replace_crlf v) \<and>
                length (filter (\<lambda>h. fst h = ci) r) = 1 \<and>
                filter (\<lambda>h. fst h \<noteq> ci) r = filter (\<lambda>h. fst h \<noteq> ci) hs'))"
proof (intro conjI impI)
  show "Headers_get hs n1 = Headers_get hs n2" by (simp add: Headers_get_def assms)
  show "Headers_has hs n1 = Headers_has hs n2" by (simp add: Headers_has_def assms)
  show "Headers_delete n1 hs = Headers_delete n2 hs" by (simp add: Headers_delete_def assms)
  show "Headers_set n1 v hs = Headers_set n2 v hs" by (simp add: Headers_set_eq assms)
  show "Headers_get (Headers_new init) n1 =
           (case find (\<lambda>(k, w). toLowerCase k = toLowerCase n2) init of
              None \<Rightarrow> None | Some (k, w) \<Rightarrow> Some (replace_crlf w))"
    by (simp add: Headers_get_def Headers_new_eq find_map_lower assms split: option.splits)
next
  assume a: "kvs \<noteq> [] \<and> (\<forall>kv \<in> set kvs. toLowerCase (fst kv) = toLowerCase n1)"
  define hs' where "hs' = foldl (\<lambda>hs (k, w). Headers_append k w hs) hs kvs"
  from a obtain kv where kv: "kv \<in> set kvs" by (cases kvs) auto
  with a have "toLowerCase (fst kv) = toLowerCase n1" by blast
  moreover have "(toLowerCase (fst kv), replace_crlf (snd kv))
      \<in> set (map (\<lambda>(k, w). (toLowerCase k, replace_crlf w)) kvs)"
  proof -
    from kv have "(case kv of (k, w) \<Rightarrow> (toLowerCase k, replace_crlf w))
      \<in> set (map (\<lambda>(k, w). (toLowerCase k, replace_crlf w)) kvs)" by simp
    then show ?thesis by (simp add: case_prod_beta)
  qed
  ultimately have "(toLowerCase n1, replace_crlf (snd kv)) \<in> set hs'"
    by (simp add: hs'_def appends_eq)
  then have ex: "\<exists>h \<in> set hs'. fst h = toLowerCase n2"
    using assms by force
  have "first_match (toLowerCase n2) hs' < length hs'"
    using ex by (rule first_match_less)
  moreover note Headers_set_take [of n2 hs' v] Headers_set_nth [of n2 v hs']
    Headers_set_count [of n2 v hs'] Headers_set_others [of n2 v hs']
  ultimately show "let hs' = foldl (\<lambda>hs (k, w). Headers_append k w hs) hs kvs;
                 ci = toLowerCase n1;
                 i = first_match ci hs';
                 r = Headers_set n2 v hs'
             in i < length hs' \<and> take i r = take i hs' \<and> r ! i = (ci, replace_crlf v) \<and>
                length (filter (\<lambda>h. fst h = ci) r) = 1 \<and>
                filter (\<lambda>h. fst h \<noteq> ci) r = filter (\<lambda>h. fst h \<noteq> ci) hs'"
    unfolding Let_def hs'_def [symmetric] assms by simp
qed

theorem headers_case_insensitive_witness:
  "toLowerCase ''Accept'' = toLowerCase ''ACCEPT'' \<and>
   toLowerCase ''accept'' = toLowerCase ''Accept'' \<and>
   toLowerCase ''AccePT'' = toLowerCase ''Accept'' \<and>
   Headers_get [(''host'', ''h''), (''accept'', ''q'')] ''Accept'' = Some ''q'' \<and>
   Headers_get [(''host'', ''h''), (''accept'', ''q'')] ''ACCEPT'' = Some ''q'' \<and>
   foldl (\<lambda>hs (k, w). Headers_append k w hs) [(''host'', ''h''), (''accept'', ''q'')]
        [(''accept'', ''a''), (''AccePT'', ''b'')]
     = [(''host'', ''h''), (''accept'', ''q''), (''accept'', ''a''), (''accept'', ''b'')] \<and>
   Headers_set ''ACCEPT'' ''z''
     (foldl (\<lambda>hs (k, w). Headers_append k w hs) [(''host'', ''h''), (''accept'', ''q'')]
        [(''accept'', ''a''), (''AccePT'', ''b'')])
     = [(''host'', ''h''), (''accept'', ''z'')]"
proof -
  have h1: "toLowerCase ''Accept'' = toLowerCase ''ACCEPT''" by code_simp
  have h2: "toLowerCase ''accept'' = toLowerCase ''Accept'' \<and>
            toLowerCase ''AccePT'' = toLowerCase ''Accept''"
    by code_simp
  have e1: "Headers_get [(''host'', ''h''), (''accept'', ''q'')] ''Accept'' = Some ''q''"
    by code_simp
  have e2: "foldl (\<lambda>hs (k, w). Headers_append k w hs) [(''host'', ''h''), (''accept'', ''q'')]
        [(''accept'', ''a''), (''AccePT'', ''b'')]
     = [(''host'', ''h''), (''accept'', ''q''), (''accept'', ''a''), (''accept'', ''b'')]"
    by code_simp
  have e3: "Headers_set ''ACCEPT'' ''z''
     [(''host'', ''h''), (''accept'', ''q''), (''accept'', ''a''), (''accept'', ''b'')]
     = [(''host'', ''h''), (''accept'', ''z'')]"
    by code_simp
  from headers_case_insensitive [OF h1, of "[(''host'', ''h''), (''accept'', ''q'')]" "''z''" "[]"
      "[(''accept'', ''a''), (''AccePT'', ''b'')]"] h1 h2 e1 e2 e3
  show ?thesis by simp
qed

text \<open>
  Claim C6. \<open>append\<close> and \<open>set\<close> store the value as \<open>replace_crlf\<close> leaves it,
  and that removes CR LF pairs only. The claim fails: \<open>append\<close> stores the value
  \<open>a\<close> LF \<open>b\<close> with its LF, \<open>set\<close> stores the value \<open>a\<close> CR \<open>b\<close> with its CR, and
  the value CR CR LF LF is stored as CR LF.
\<close>

theorem lone_line_break_is_stored:
  "Headers_get (Headers_append name v []) name = Some (replace_crlf v) \<and>
   Headers_get (Headers_set name v hs) name = Some (replace_crlf v) \<and>
   Headers_append ''X-Note'' [CHR ''a'', LF, CHR ''b''] []
     = [(''x-note'', [CHR ''a'', LF, CHR ''b''])] \<and>
   Headers_set ''X-Note'' [CHR ''a'', CR, CHR ''b''] [(''x-note'', ''c'')]
     = [(''x-note'', [CHR ''a'', CR, CHR ''b''])] \<and>
   Headers_set ''X-Note'' [CR, CR, LF, LF] [] = [(''x-note'', [CR, LF])] \<and>
   \<not> no_crlf [CHR ''a'', LF, CHR ''b''] \<and> \<not> no_crlf [CHR ''a'', CR, CHR ''b''] \<and>
   \<not> no_crlf [CR, LF]"
proof (intro conjI)
  show "Headers_get (Headers_append name v []) name = Some (replace_crlf v)"
    by (simp add: Headers_get_def Headers_append_def)
  show "Headers_get (Headers_set name v hs) name = Some (replace_crlf v)"
    by (rule Headers_get_set)
  show "Headers_append ''X-Note'' [CHR ''a'', LF, CHR ''b''] []
     = [(''x-note'', [CHR ''a'', LF, CHR ''b''])]"
    by code_simp
  show "Headers_set ''X-Note'' [CHR ''a'', CR, CHR ''b''] [(''x-note'', ''c'')]
     = [(''x-note'', [CHR ''a'', CR, CHR ''b''])]"
    by code_simp
  show "Headers_set ''X-Note'' [CR, CR, LF, LF] [] = [(''x-note'', [CR, LF])]"
    by code_simp
  show "\<not> no_crlf [CHR ''a'', LF, CHR ''b'']" by code_simp
  show "\<not> no_crlf [CHR ''a'', CR, CHR ''b'']" by code_simp
  show "\<not> no_crlf [CR, LF]" by code_simp
qed


section \<open>Message bodies (fetch module, classes FormData, Body, Request, Response)\<close>

text \<open>Exceptions thrown by the fetch module, and the failures of the language itself.\<close>

datatype fetch_error =
    BodyAlreadyConsumed
  | RequestBodyAlreadyUsed
  | BodyTypeNotSupported
  | NotImplementedYet
  | FormDataMimeType string
  | InputMustBeStringOrRequest
  | BodyWithGetOrHead
  | StatusNotInRange nat
  | StatusTextNotValid
  | BodyHasAlreadyBeenUsed
  | NullDereference
  | JSONSyntaxError

text \<open>
  External libraries: the zlib stream transformers (the bytes a decompressor emits for a
  given input before it ends or fails), \<^verbatim>\<open>JSON.parse\<close>, \<^verbatim>\<open>URL.format\<close>, the table
  \<^verbatim>\<open>HTTP.STATUS_CODES\<close>, and the multipart boundary that the constructor draws from the
  clock and the random number generator.
\<close>

record 'j fetch_lib =
  createInflate :: "string \<Rightarrow> string"
  createGunzip :: "string \<Rightarrow> string"
  JSON_parse :: "string \<Rightarrow> 'j option"
  URL_format :: "string \<Rightarrow> string"
  STATUS_CODES :: "nat \<Rightarrow> string option"
  new_boundary :: string

text \<open>
  A readable stream: whether it is still readable, and the bytes it delivers before it
  ends or fails. Objects are held in a store and named by their addresses, since a
  stream is shared between a body and its copies, and a constructor writes to the
  object it copies.
\<close>

record stream_state =
  readable :: bool
  pending :: string

datatype fetch_class = RequestClass | ResponseClass

record fetch_object =
  f_class :: fetch_class
  f_stream :: "nat option"
  f_bodyUsed :: bool
  f_body :: "string option"
  f_headers :: Headers
  f_url :: string
  f_method :: string
  f_redirect :: string
  f_redirectCount :: nat
  f_type :: string
  f_status :: nat
  f_statusText :: string

record heap =
  objects :: "nat \<Rightarrow> fetch_object"
  next_object :: nat
  streams :: "nat \<Rightarrow> stream_state"
  next_stream :: nat

definition new_stream :: "stream_state \<Rightarrow> heap \<Rightarrow> nat \<times> heap" where
  "new_stream st h =
     (next_stream h, h\<lparr>streams := (streams h)(next_stream h := st), next_stream := Suc (next_stream h)\<rparr>)"

definition new_object :: "fetch_object \<Rightarrow> heap \<Rightarrow> nat \<times> heap" where
  "new_object obj h =
     (next_object h, h\<lparr>objects := (objects h)(next_object h := obj), next_object := Suc (next_object h)\<rparr>)"

definition update_object :: "nat \<Rightarrow> (fetch_object \<Rightarrow> fetch_object) \<Rightarrow> heap \<Rightarrow> heap" where
  "update_object a f h = h\<lparr>objects := (objects h)(a := f (objects h a))\<rparr>"

text \<open>Decimal notation of a number, as template strings print it.\<close>

fun string_of_nat :: "nat \<Rightarrow> string" where
  "string_of_nat n =
     (if n < 10 then [char_of (48 + n)]
      else string_of_nat (n div 10) @ [char_of (48 + n mod 10)])"

declare string_of_nat.simps [simp del]

subsection \<open>FormData\<close>

text \<open>
  An entry's value is a text, or a file-like object with a \<^verbatim>\<open>read\<close> method, an
  optional \<^verbatim>\<open>mime\<close> property and a string form.
\<close>

datatype form_value =
    FieldText string
  | FieldFile (file_string: string) (file_mime: "string option") (file_read: string)

type_synonym FormData = "(string \<times> form_value) list"

definition FormData_append :: "string \<Rightarrow> form_value \<Rightarrow> FormData \<Rightarrow> FormData" where
  "FormData_append name v entries = entries @ [(name, v)]"

definition FormData_delete :: "string \<Rightarrow> FormData \<Rightarrow> FormData" where
  "FormData_delete name entries = filter (\<lambda>entry. fst entry \<noteq> name) entries"

definition FormData_set :: "string \<Rightarrow> form_value \<Rightarrow> FormData \<Rightarrow> FormData" where
  "FormData_set name v entries = FormData_append name v (FormData_delete name entries)"

definition FormData_get :: "FormData \<Rightarrow> string \<Rightarrow> form_value option" where
  "FormData_get entries name =
     (case find (\<lambda>entry. fst entry = name) entries of
        Some entry \<Rightarrow> Some (snd entry) | None \<Rightarrow> None)"

definition FormData_getAll :: "FormData \<Rightarrow> string \<Rightarrow> form_value list" where
  "FormData_getAll entries name = map snd (filter (\<lambda>entry. fst entry = name) entries)"

definition FormData_has :: "FormData \<Rightarrow> string \<Rightarrow> bool" where
  "FormData_has entries name = (find (\<lambda>entry. fst entry = name) entries \<noteq> None)"

text \<open>What one call of \<^verbatim>\<open>_read\<close> pushes for an entry, and the whole stream.\<close>

definition asStream_part :: "string \<Rightarrow> string \<times> form_value \<Rightarrow> string" where
  "asStream_part boundary entry =
     (case entry of (name, v) \<Rightarrow>
        ''--'' @ boundary @ [CR, LF] @
        (case v of
           FieldFile str mime buffer \<Rightarrow>
             ''Content-Disposition: form-data; name=\"'' @ name @ ''\"; filename=\"'' @ str @ ''\"'' @ [CR, LF] @
             ''Content-Type: '' @ (case mime of Some m \<Rightarrow> (if m = [] then ''application/octet-stream'' else m)
                                   | None \<Rightarrow> ''application/octet-stream'') @ [CR, LF] @
             ''Content-Length: '' @ string_of_nat (length buffer) @ [CR, LF, CR, LF] @
             buffer
         | FieldText text \<Rightarrow>
             ''Content-Disposition: form-data; name=\"'' @ name @ ''\"'' @ [CR, LF] @
             ''Content-Type: text/plain; charset=utf8'' @ [CR, LF, CR, LF] @
             ''Content-Length: '' @ string_of_nat (length text) @ [CR, LF, CR, LF] @
             text) @
        [CR, LF])"

definition FormData_asStream :: "string \<Rightarrow> FormData \<Rightarrow> stream_state" where
  "FormData_asStream boundary entries =
     \<lparr>readable = True,
      pending = concat (map (asStream_part boundary) entries) @ ''--'' @ boundary @ ''--''\<rparr>"


subsection \<open>Body\<close>

text \<open>
  What a constructor may receive as \<^verbatim>\<open>bodyInit\<close>: nothing, another body (by address),
  a readable stream (by address), a string, a form, or a value of any other type.
\<close>

datatype bodyInit =
    InitNull
  | InitBody nat
  | InitReadable nat
  | InitString string
  | InitFormData FormData
  | InitOther

fun truthy_bodyInit :: "bodyInit \<Rightarrow> bool" where
  "truthy_bodyInit InitNull = False"
| "truthy_bodyInit (InitString s) = (s \<noteq> [])"
| "truthy_bodyInit _ = True"

definition decompressStream :: "'j fetch_lib \<Rightarrow> string \<Rightarrow> Headers \<Rightarrow> string" where
  "decompressStream L stream headers =
     (let transferEncoding = Headers_get headers ''Transfer-Encoding'';
          contentEncoding = Headers_get headers ''Content-Encoding''
      in if contentEncoding = Some ''deflate'' \<or> transferEncoding = Some ''deflate''
         then createInflate L stream
         else if contentEncoding = Some ''gzip'' \<or> transferEncoding = Some ''gzip''
         then createGunzip L stream
         else stream)"

definition setContentType :: "string option \<Rightarrow> fetch_object \<Rightarrow> fetch_object" where
  "setContentType contentType this =
     (case contentType of
        None \<Rightarrow> this
      | Some ct \<Rightarrow>
          if ct \<noteq> [] \<and> \<not> Headers_has (f_headers this) ''Content-Type''
          then this\<lparr>f_headers := Headers_set ''Content-Type'' ct (f_headers this)\<rparr>
          else this)"

text \<open>
  The constructor of \<^verbatim>\<open>Body\<close> runs on the object under construction (\<open>this\<close>, whose
  headers the subclass has set already) and may allocate a stream. \<^verbatim>\<open>pipe\<close> gives the
  new pass-through stream the bytes that the source delivers and leaves the source as
  it is, so that every stream it is piped to receives them.
\<close>

definition Body_constructor ::
  "'j fetch_lib \<Rightarrow> bodyInit \<Rightarrow> fetch_object \<Rightarrow> heap \<Rightarrow> (fetch_error + fetch_object) \<times> heap" where
  "Body_constructor L init this h =
     (let finish = (\<lambda>this. this\<lparr>f_bodyUsed := False, f_body := None\<rparr>) in
      case init of
        InitBody b \<Rightarrow>
          (Inr (finish (setContentType (Headers_get (f_headers (objects h b)) ''Content-Type'')
                          (this\<lparr>f_stream := f_stream (objects h b)\<rparr>))), h)
      | InitReadable src \<Rightarrow>
          (let piped = (if readable (streams h src) then pending (streams h src) else []);
               (passThrough, h1) = new_stream \<lparr>readable = True, pending = piped\<rparr> h
           in (Inr (finish (this\<lparr>f_stream := Some passThrough\<rparr>)), h1))
      | InitString str \<Rightarrow>
          (let (s, h1) = new_stream \<lparr>readable = True, pending = str\<rparr> h
           in (Inr (finish (setContentType (Some ''text/plain;charset=UTF-8'')
                              (this\<lparr>f_stream := Some s\<rparr>))), h1))
      | InitFormData entries \<Rightarrow>
          if length entries \<noteq> 0 then
            (let boundary = new_boundary L;
                 this1 = setContentType (Some (''multipart/form-data;boundary='' @ boundary)) this;
                 (s, h1) = new_stream (FormData_asStream boundary entries) h
             in (Inr (finish (this1\<lparr>f_stream := Some s\<rparr>)), h1))
          else (Inr (finish (setContentType (Some ''text/plain;charset=UTF-8'') this)), h)
      | InitOther \<Rightarrow> (Inl BodyTypeNotSupported, h)
      | InitNull \<Rightarrow> (Inr (finish this), h))"

text \<open>
  \<^verbatim>\<open>_consume\<close>: the result is \<open>None\<close> for JavaScript's \<open>null\<close>, or the bytes read.
  Reading drains the stream, which is not readable afterwards.
\<close>

definition Body_consume ::
  "'j fetch_lib \<Rightarrow> nat \<Rightarrow> heap \<Rightarrow> (fetch_error + string option) \<times> heap" where
  "Body_consume L a h =
     (if f_bodyUsed (objects h a) then (Inl BodyAlreadyConsumed, h)
      else
        let h1 = update_object a (\<lambda>this. this\<lparr>f_bodyUsed := True\<rparr>) h in
        case f_stream (objects h1 a) of
          None \<Rightarrow> (Inr None, h1)
        | Some s \<Rightarrow>
            if \<not> readable (streams h1 s) then (Inr (Some []), h1)
            else
              let buffers = decompressStream L (pending (streams h1 s)) (f_headers (objects h1 a))
              in (Inr (Some buffers),
                  h1\<lparr>streams := (streams h1)(s := \<lparr>readable = False, pending = []\<rparr>)\<rparr>))"

datatype 'j js_value = Bytes string | Str string | Json 'j

definition Body_arrayBuffer ::
  "'j fetch_lib \<Rightarrow> nat \<Rightarrow> heap \<Rightarrow> (fetch_error + 'j js_value) \<times> heap" where
  "Body_arrayBuffer L a h =
     (case Body_consume L a h of
        (Inl e, h1) \<Rightarrow> (Inl e, h1)
      | (Inr buffer, h1) \<Rightarrow>
          let h2 = update_object a (\<lambda>this. this\<lparr>f_body := buffer\<rparr>) h1 in
          (case buffer of
             None \<Rightarrow> (Inl NullDereference, h2)
           | Some bytes \<Rightarrow> (Inr (Bytes bytes), h2)))"

definition mimeType_of :: "string \<Rightarrow> string" where
  "mimeType_of contentType = takeWhile (\<lambda>c. c \<noteq> CHR '';'') contentType"

definition Body_formData ::
  "'j fetch_lib \<Rightarrow> nat \<Rightarrow> heap \<Rightarrow> (fetch_error + 'j js_value) \<times> heap" where
  "Body_formData L a h =
     (case Body_consume L a h of
        (Inl e, h1) \<Rightarrow> (Inl e, h1)
      | (Inr buffer, h1) \<Rightarrow>
          let contentType = (case Headers_get (f_headers (objects h1 a)) ''Content-Type'' of
                               None \<Rightarrow> [] | Some ct \<Rightarrow> ct);
              mimeType = mimeType_of contentType
          in if mimeType = ''multipart/form-data'' then (Inl NotImplementedYet, h1)
             else if mimeType = ''application/x-www-form-urlencoded'' then (Inl NotImplementedYet, h1)
             else (Inl (FormDataMimeType mimeType), h1))"

definition Body_json ::
  "'j fetch_lib \<Rightarrow> nat \<Rightarrow> heap \<Rightarrow> (fetch_error + 'j js_value) \<times> heap" where
  "Body_json L a h =
     (case Body_consume L a h of
        (Inl e, h1) \<Rightarrow> (Inl e, h1)
      | (Inr None, h1) \<Rightarrow> (Inl NullDereference, h1)
      | (Inr (Some buffer), h1) \<Rightarrow>
          let h2 = update_object a (\<lambda>this. this\<lparr>f_body := Some buffer\<rparr>) h1 in
          (case JSON_parse L buffer of
             None \<Rightarrow> (Inl JSONSyntaxError, h2)
           | Some j \<Rightarrow> (Inr (Json j), h2)))"

definition Body_text ::
  "'j fetch_lib \<Rightarrow> nat \<Rightarrow> heap \<Rightarrow> (fetch_error + 'j js_value) \<times> heap" where
  "Body_text L a h =
     (case Body_consume L a h of
        (Inl e, h1) \<Rightarrow> (Inl e, h1)
      | (Inr None, h1) \<Rightarrow> (Inl NullDereference, h1)
      | (Inr (Some buffer), h1) \<Rightarrow>
          (Inr (Str buffer), update_object a (\<lambda>this. this\<lparr>f_body := Some buffer\<rparr>) h1))"

text \<open>The four accessors, and a sequence of calls on the objects of a store.\<close>

datatype accessor = CallArrayBuffer | CallFormData | CallJson | CallText

fun call_accessor ::
  "'j fetch_lib \<Rightarrow> accessor \<Rightarrow> nat \<Rightarrow> heap \<Rightarrow> (fetch_error + 'j js_value) \<times> heap" where
  "call_accessor L CallArrayBuffer a h = Body_arrayBuffer L a h"
| "call_accessor L CallFormData a h = Body_formData L a h"
| "call_accessor L CallJson a h = Body_json L a h"
| "call_accessor L CallText a h = Body_text L a h"

fun call_accessors ::
  "'j fetch_lib \<Rightarrow> (nat \<times> accessor) list \<Rightarrow> heap \<Rightarrow> (nat \<times> (fetch_error + 'j js_value)) list \<times> heap" where
  "call_accessors L [] h = ([], h)"
| "call_accessors L ((a, acc) # calls) h =
     (case call_accessor L acc a h of
        (r, h1) \<Rightarrow> (case call_accessors L calls h1 of (rs, h2) \<Rightarrow> ((a, r) # rs, h2)))"

subsection \<open>Request and Response\<close>

datatype request_input = InputString string | InputObject nat | InputOther

record request_init =
  init_method :: "string option"
  init_headers :: "(string \<times> string) list"
  init_body :: bodyInit
  init_redirect :: "string option"

definition blank_object :: "fetch_class \<Rightarrow> fetch_object" where
  "blank_object c =
     \<lparr>f_class = c, f_stream = None, f_bodyUsed = False, f_body = None, f_headers = [],
      f_url = [], f_method = [], f_redirect = [], f_redirectCount = 0, f_type = [],
      f_status = 0, f_statusText = []\<rparr>"

text \<open>
  The constructor of \<^verbatim>\<open>Request\<close>, statement by statement. \<open>Request_copied\<close> is the
  test \<^verbatim>\<open>input instanceof Request && input._stream\<close>.
\<close>

definition Request_copied :: "request_input \<Rightarrow> heap \<Rightarrow> nat option" where
  "Request_copied input h =
     (case input of
        InputObject r \<Rightarrow>
          if f_class (objects h r) = RequestClass \<and> f_stream (objects h r) \<noteq> None
          then Some r else None
      | _ \<Rightarrow> None)"

definition Request_url :: "'j fetch_lib \<Rightarrow> request_input \<Rightarrow> heap \<Rightarrow> string" where
  "Request_url L input h =
     (case input of
        InputString s \<Rightarrow> URL_format L s
      | InputObject r \<Rightarrow> if f_class (objects h r) = RequestClass then f_url (objects h r) else []
      | InputOther \<Rightarrow> [])"

definition Request_method :: "request_input \<Rightarrow> request_init option \<Rightarrow> heap \<Rightarrow> string" where
  "Request_method input init h =
     (let given = (case init of
                     Some i \<Rightarrow> init_method i
                   | None \<Rightarrow> (case input of
                                InputObject r \<Rightarrow> Some (f_method (objects h r))
                              | _ \<Rightarrow> None))
      in toUpperCase (case given of
                        Some m \<Rightarrow> (if m = [] then ''GET'' else m)
                      | None \<Rightarrow> ''GET''))"

definition Request_headers :: "request_input \<Rightarrow> request_init option \<Rightarrow> heap \<Rightarrow> Headers" where
  "Request_headers input init h =
     Headers_new (case init of
                    Some i \<Rightarrow> init_headers i
                  | None \<Rightarrow> (case input of
                               InputObject r \<Rightarrow> f_headers (objects h r)
                             | _ \<Rightarrow> []))"

definition Request_redirect :: "request_init option \<Rightarrow> string" where
  "Request_redirect init =
     (if (case init of Some i \<Rightarrow> init_redirect i | None \<Rightarrow> None) = Some ''error''
      then ''error'' else ''follow'')"

definition Request_constructor ::
  "'j fetch_lib \<Rightarrow> request_input \<Rightarrow> request_init option \<Rightarrow> heap \<Rightarrow> (fetch_error + nat) \<times> heap" where
  "Request_constructor L input init h =
     (let copied = Request_copied input h in
      if (case copied of Some r \<Rightarrow> f_bodyUsed (objects h r) | None \<Rightarrow> False)
      then (Inl RequestBodyAlreadyUsed, h)
      else
        let bodyInit0 = (case copied of Some r \<Rightarrow> InitBody r | None \<Rightarrow> InitNull);
            h1 = (case copied of
                    Some r \<Rightarrow> update_object r (\<lambda>input. input\<lparr>f_bodyUsed := True\<rparr>) h
                  | None \<Rightarrow> h);
            url = Request_url L input h1
        in
        if url = [] then (Inl InputMustBeStringOrRequest, h1)
        else
          let method = Request_method input init h1;
              headers = Request_headers input init h1;
              withBody = (case init of Some i \<Rightarrow> truthy_bodyInit (init_body i) | None \<Rightarrow> False)
          in
          if withBody \<and> (method = ''GET'' \<or> method = ''HEAD'')
          then (Inl BodyWithGetOrHead, h1)
          else
            let bodyInit = (case init of
                              Some i \<Rightarrow> (if withBody then init_body i else bodyInit0)
                            | None \<Rightarrow> bodyInit0);
                this = (blank_object RequestClass)
                         \<lparr>f_headers := headers, f_url := url, f_method := method,
                          f_redirect := Request_redirect init, f_redirectCount := 0\<rparr>
            in case Body_constructor L bodyInit this h1 of
                 (Inl e, h2) \<Rightarrow> (Inl e, h2)
               | (Inr this', h2) \<Rightarrow> (case new_object this' h2 of (a, h3) \<Rightarrow> (Inr a, h3)))"

record response_init =
  ri_status :: nat
  ri_statusText :: "string option"
  ri_url :: "string option"
  ri_headers :: "(string \<times> string) list"

definition Response_constructor ::
  "'j fetch_lib \<Rightarrow> bodyInit \<Rightarrow> response_init option \<Rightarrow> heap \<Rightarrow> (fetch_error + nat) \<times> heap" where
  "Response_constructor L bodyInit responseInit h =
     (case responseInit of
        Some ri \<Rightarrow>
          if ri_status ri < 200 \<or> ri_status ri > 599 then (Inl (StatusNotInRange (ri_status ri)), h)
          else
            let statusText =
                  (case ri_statusText ri of
                     Some t \<Rightarrow> if t \<noteq> [] then t
                               else (case STATUS_CODES L (ri_status ri) of
                                       Some c \<Rightarrow> if c \<noteq> [] then c else ''Unknown''
                                     | None \<Rightarrow> ''Unknown'')
                   | None \<Rightarrow> (case STATUS_CODES L (ri_status ri) of
                                Some c \<Rightarrow> if c \<noteq> [] then c else ''Unknown''
                              | None \<Rightarrow> ''Unknown''))
            in
            if \<not> (statusText \<noteq> [] \<and> no_crlf statusText) then (Inl StatusTextNotValid, h)
            else
              let this = (blank_object ResponseClass)
                           \<lparr>f_url := URL_format L (case ri_url ri of Some u \<Rightarrow> u | None \<Rightarrow> []),
                            f_type := ''default'', f_status := ri_status ri,
                            f_statusText := statusText, f_headers := Headers_new (ri_headers ri)\<rparr>
              in (case Body_constructor L bodyInit this h of
                    (Inl e, h1) \<Rightarrow> (Inl e, h1)
                  | (Inr this', h1) \<Rightarrow> (case new_object this' h1 of (a, h2) \<Rightarrow> (Inr a, h2)))
      | None \<Rightarrow>
          let this = (blank_object ResponseClass)
                       \<lparr>f_type := ''error'', f_status := 0, f_statusText := [], f_headers := Headers_new []\<rparr>
          in (case Body_constructor L bodyInit this h of
                (Inl e, h1) \<Rightarrow> (Inl e, h1)
              | (Inr this', h1) \<Rightarrow> (case new_object this' h1 of (a, h2) \<Rightarrow> (Inr a, h2))))"

text \<open>\<^verbatim>\<open>clone\<close> of a request or response: both outcomes are exceptions.\<close>

definition clone :: "nat \<Rightarrow> heap \<Rightarrow> fetch_error" where
  "clone a h = (if f_bodyUsed (objects h a) then BodyHasAlreadyBeenUsed else NotImplementedYet)"

definition empty_heap :: heap where
  "empty_heap =
     \<lparr>objects = (\<lambda>a. blank_object RequestClass), next_object = 0,
      streams = (\<lambda>s. \<lparr>readable = False, pending = []\<rparr>), next_stream = 0\<rparr>"

subsection \<open>Example stores\<close>

definition test_lib :: "unit fetch_lib" where
  "test_lib = \<lparr>createInflate = (\<lambda>s. s), createGunzip = (\<lambda>s. s), JSON_parse = (\<lambda>s. if s = ''[1]'' then Some () else None),
     URL_format = (\<lambda>s. s), STATUS_CODES = (\<lambda>n. if n = 200 then Some ''OK'' else None),
     new_boundary = ''boundary''\<rparr>"

text \<open>
  A request without a body is read, then copied, and the copy is read:
  \<^verbatim>\<open>r1 = new Request(url); r1.text(); r1.text(); r2 = new Request(r1); r2.formData()\<close>.
\<close>

definition copy_of_used_request ::
  "(fetch_error + nat) \<times> (fetch_error + unit js_value) \<times> (fetch_error + unit js_value) \<times>
   (fetch_error + nat) \<times> (fetch_error + unit js_value)" where
  "copy_of_used_request =
     (let c1 = Request_constructor test_lib (InputString ''http://example.test/'') None empty_heap;
          c2 = Body_text test_lib 0 (snd c1);
          c3 = Body_text test_lib 0 (snd c2);
          c4 = Request_constructor test_lib (InputObject 0) None (snd c3);
          c5 = Body_formData test_lib 1 (snd c4)
      in (fst c1, fst c2, fst c3, fst c4, fst c5))"

definition resp200 :: response_init where
  "resp200 = \<lparr>ri_status = 200, ri_statusText = None, ri_url = None, ri_headers = []\<rparr>"

definition copy_of_used_response ::
  "(fetch_error + nat) \<times> (fetch_error + unit js_value) \<times> (fetch_error + unit js_value) \<times>
   (fetch_error + nat) \<times> (fetch_error + unit js_value)" where
  "copy_of_used_response =
     (let c1 = Response_constructor test_lib (InitString ''hi'') (Some resp200) empty_heap;
          c2 = Body_text test_lib 0 (snd c1);
          c3 = Body_text test_lib 0 (snd c2);
          c4 = Response_constructor test_lib (InitBody 0) (Some resp200) (snd c3);
          c5 = Body_text test_lib 1 (snd c4)
      in (fst c1, fst c2, fst c3, fst c4, fst c5))"

definition post_init :: request_init where
  "post_init = \<lparr>init_method = Some ''post'', init_headers = [(''Content-Type'', ''application/json'')],
                 init_body = InitString ''[1]'', init_redirect = None\<rparr>"

text \<open>The store after \<^verbatim>\<open>new Request(url, {method: 'post', headers, body: '[1]'})\<close>.\<close>

definition post_request_heap :: heap where
  "post_request_heap =
     snd (Request_constructor test_lib (InputString ''http://example.test/'') (Some post_init) empty_heap)"


section \<open>Properties of message bodies\<close>

lemma Body_consume_used:
  "f_bodyUsed (objects h a) \<Longrightarrow> Body_consume L a h = (Inl BodyAlreadyConsumed, h)"
  by (simp add: Body_consume_def)

lemma Body_consume_marks: "f_bodyUsed (objects (snd (Body_consume L a h)) a)"
  by (simp add: Body_consume_def update_object_def Let_def split: option.splits)

lemma Body_consume_keeps:
  "f_bodyUsed (objects h b) \<Longrightarrow> f_bodyUsed (objects (snd (Body_consume L a h)) b)"
  by (simp add: Body_consume_def update_object_def Let_def split: option.splits)

lemma call_accessor_used:
  "f_bodyUsed (objects h a) \<Longrightarrow> call_accessor L acc a h = (Inl BodyAlreadyConsumed, h)"
  by (cases acc)
     (simp_all add: Body_arrayBuffer_def Body_formData_def Body_json_def Body_text_def
        Body_consume_used)

lemma call_accessor_keeps:
  assumes "f_bodyUsed (objects h b)"
  shows "f_bodyUsed (objects (snd (call_accessor L acc a h)) b)"
proof -
  obtain r h1 where c: "Body_consume L a h = (r, h1)" by (cases "Body_consume L a h")
  with Body_consume_keeps [OF assms, of L a] have "f_bodyUsed (objects h1 b)" by simp
  with c show ?thesis
    by (cases acc)
       (auto simp: Body_arrayBuffer_def Body_formData_def Body_json_def Body_text_def
          update_object_def Let_def split: sum.splits option.splits)
qed

lemma call_accessor_marks: "f_bodyUsed (objects (snd (call_accessor L acc a h)) a)"
proof -
  obtain r h1 where c: "Body_consume L a h = (r, h1)" by (cases "Body_consume L a h")
  with Body_consume_marks [of L a h] have "f_bodyUsed (objects h1 a)" by simp
  with c show ?thesis
    by (cases acc)
       (auto simp: Body_arrayBuffer_def Body_formData_def Body_json_def Body_text_def
          update_object_def Let_def split: sum.splits option.splits)
qed

lemma call_accessors_used:
  "f_bodyUsed (objects h a) \<Longrightarrow>
   (b, r) \<in> set (fst (call_accessors L calls h)) \<Longrightarrow> b = a \<Longrightarrow> r = Inl BodyAlreadyConsumed"
proof (induction calls arbitrary: h)
  case Nil
  then show ?case by simp
next
  case (Cons c calls)
  obtain a' acc where c: "c = (a', acc)" by (cases c)
  obtain r1 h1 where r1: "call_accessor L acc a' h = (r1, h1)" by (cases "call_accessor L acc a' h")
  obtain rs h2 where rs: "call_accessors L calls h1 = (rs, h2)" by (cases "call_accessors L calls h1")
  from Cons.prems(1) call_accessor_keeps [of h a L acc a'] r1
  have used: "f_bodyUsed (objects h1 a)" by simp
  from Cons.prems(2) c r1 rs have "(b, r) = (a', r1) \<or> (b, r) \<in> set rs" by simp
  then show ?case
  proof
    assume "(b, r) = (a', r1)"
    with Cons.prems(1,3) r1 call_accessor_used [of h a L acc] show ?thesis by simp
  next
    assume "(b, r) \<in> set rs"
    with Cons.IH [OF used] rs Cons.prems(3) show ?thesis by simp
  qed
qed

lemma Request_constructor_used:
  assumes "f_class (objects h r) = RequestClass" and "f_stream (objects h r) \<noteq> None"
      and "f_bodyUsed (objects h r)"
  shows "Request_constructor L (InputObject r) init h = (Inl RequestBodyAlreadyUsed, h)"
  using assms by (simp add: Request_constructor_def Request_copied_def)

lemma Body_constructor_objects:
  "objects (snd (Body_constructor L bi this h)) = objects h \<and>
   next_object (snd (Body_constructor L bi this h)) = next_object h"
  by (cases bi) (simp_all add: Body_constructor_def new_stream_def Let_def split: prod.splits)

lemma Body_constructor_InitBody:
  "Body_constructor L (InitBody b) this h =
     (Inr ((setContentType (Headers_get (f_headers (objects h b)) ''Content-Type'')
              (this\<lparr>f_stream := f_stream (objects h b)\<rparr>))\<lparr>f_bodyUsed := False, f_body := None\<rparr>), h)"
  by (simp add: Body_constructor_def)

lemma f_stream_setContentType [simp]: "f_stream (setContentType ct this) = f_stream this"
  by (simp add: setContentType_def split: option.splits)

lemma Body_constructor_objectsD:
  "Body_constructor L bi this h = (res, h2) \<Longrightarrow>
     objects h2 = objects h \<and> next_object h2 = next_object h"
  using Body_constructor_objects [of L bi this h] by simp

lemma Request_constructor_marks_input:
  assumes "f_class (objects h r) = RequestClass" and "f_stream (objects h r) \<noteq> None"
      and "\<not> f_bodyUsed (objects h r)" and "r < next_object h"
  shows "f_bodyUsed (objects (snd (Request_constructor L (InputObject r) init h)) r)"
proof -
  define h1 where "h1 = update_object r (\<lambda>input. input\<lparr>f_bodyUsed := True\<rparr>) h"
  have c: "Request_copied (InputObject r) h = Some r"
    using assms by (simp add: Request_copied_def)
  have u1: "f_bodyUsed (objects h1 r)" and n1: "next_object h1 = next_object h"
    by (simp_all add: h1_def update_object_def)
  show ?thesis
    using assms(3,4) u1 n1
    by (auto simp: Request_constructor_def c Let_def h1_def [symmetric] new_object_def
        split: prod.splits sum.splits dest!: Body_constructor_objectsD)
qed

lemma Request_constructor_copy:
  assumes "f_class (objects h r) = RequestClass" and "f_stream (objects h r) \<noteq> None"
      and "\<not> f_bodyUsed (objects h r)" and "r < next_object h" and "f_url (objects h r) \<noteq> []"
  shows "fst (Request_constructor L (InputObject r) None h) = Inr (next_object h)"
    and "f_stream (objects (snd (Request_constructor L (InputObject r) None h)) (next_object h))
           = f_stream (objects h r)"
    and "\<not> f_bodyUsed (objects (snd (Request_constructor L (InputObject r) None h)) (next_object h))"
  using assms
  by (simp_all add: Request_constructor_def Request_copied_def Request_url_def Let_def
      Body_constructor_InitBody new_object_def update_object_def)

lemma call_accessors_used_pair:
  assumes "f_bodyUsed (objects h a)" and "br \<in> set (fst (call_accessors L calls h))"
      and "fst br = a"
  shows "snd br = Inl BodyAlreadyConsumed"
  using call_accessors_used [OF assms(1), of "fst br" "snd br" L calls] assms(2,3)
  by (cases br) simp

text \<open>
  Claim C4, as the code has it. Every call of an accessor (\<open>arrayBuffer\<close>, \<open>formData\<close>,
  \<open>json\<close>, \<open>text\<close>) marks the body used, and every later accessor call on that body,
  whichever accessor and in whatever order and whatever is called on other objects in
  between, fails with the reuse error. A request that has a stream and is used cannot be
  copied: the constructor of \<open>Request\<close> fails with a reuse error and leaves the store
  unchanged. Copying an unused request that has a stream marks the original used, so
  that every accessor call on the original fails with the reuse error; the copy made
  without an \<open>init\<close> argument shares the stream and starts unused.
\<close>

theorem body_single_use:
  "f_bodyUsed (objects (snd (call_accessor L acc a h)) a) \<and>
   (\<forall>calls. \<forall>br \<in> set (fst (call_accessors L calls (snd (call_accessor L acc a h)))).
       fst br = a \<longrightarrow> snd br = Inl BodyAlreadyConsumed) \<and>
   (f_class (objects h r) = RequestClass \<and> f_stream (objects h r) \<noteq> None \<and>
    f_bodyUsed (objects h r) \<longrightarrow>
      Request_constructor L (InputObject r) init h = (Inl RequestBodyAlreadyUsed, h)) \<and>
   (f_class (objects h r) = RequestClass \<and> f_stream (objects h r) \<noteq> None \<and>
    \<not> f_bodyUsed (objects h r) \<and> r < next_object h \<longrightarrow>
      f_bodyUsed (objects (snd (Request_constructor L (InputObject r) init h)) r) \<and>
      (\<forall>acc'. fst (call_accessor L acc' r (snd (Request_constructor L (InputObject r) init h)))
                = Inl BodyAlreadyConsumed) \<and>
      (f_url (objects h r) \<noteq> [] \<longrightarrow>
         fst (Request_constructor L (InputObject r) None h) = Inr (next_object h) \<and>
         f_stream (objects (snd (Request_constructor L (InputObject r) None h)) (next_object h))
           = f_stream (objects h r) \<and>
         \<not> f_bodyUsed (objects (snd (Request_constructor L (InputObject r) None h)) (next_object h))))"
proof (intro conjI allI ballI impI)
  show "f_bodyUsed (objects (snd (call_accessor L acc a h)) a)"
    by (rule call_accessor_marks)
next
  fix calls br
  assume "br \<in> set (fst (call_accessors L calls (snd (call_accessor L acc a h))))" and "fst br = a"
  with call_accessor_marks [of L acc a h]
  show "snd br = Inl BodyAlreadyConsumed" by (rule call_accessors_used_pair)
next
  assume "f_class (objects h r) = RequestClass \<and> f_stream (objects h r) \<noteq> None \<and>
    f_bodyUsed (objects h r)"
  then show "Request_constructor L (InputObject r) init h = (Inl RequestBodyAlreadyUsed, h)"
    by (simp add: Request_constructor_used)
next
  assume a: "f_class (objects h r) = RequestClass \<and> f_stream (objects h r) \<noteq> None \<and>
    \<not> f_bodyUsed (objects h r) \<and> r < next_object h"
  then show m: "f_bodyUsed (objects (snd (Request_constructor L (InputObject r) init h)) r)"
    by (simp add: Request_constructor_marks_input)
  fix acc'
  from m show "fst (call_accessor L acc' r (snd (Request_constructor L (InputObject r) init h)))
                = Inl BodyAlreadyConsumed"
    by (simp add: call_accessor_used)
next
  assume a: "f_class (objects h r) = RequestClass \<and> f_stream (objects h r) \<noteq> None \<and>
    \<not> f_bodyUsed (objects h r) \<and> r < next_object h" and u: "f_url (objects h r) \<noteq> []"
  from a u show "fst (Request_constructor L (InputObject r) None h) = Inr (next_object h)"
    by (simp add: Request_constructor_copy)
  from a u show "f_stream (objects (snd (Request_constructor L (InputObject r) None h)) (next_object h))
           = f_stream (objects h r)"
    by (simp add: Request_constructor_copy)
  from a u show "\<not> f_bodyUsed (objects (snd (Request_constructor L (InputObject r) None h)) (next_object h))"
    by (simp add: Request_constructor_copy)
qed

theorem body_single_use_witness:
  "f_class (objects post_request_heap 0) = RequestClass \<and>
   f_stream (objects post_request_heap 0) \<noteq> None \<and>
   \<not> f_bodyUsed (objects post_request_heap 0) \<and>
   0 < next_object post_request_heap \<and>
   f_url (objects post_request_heap 0) \<noteq> [] \<and>
   fst (call_accessor test_lib CallJson 0 post_request_heap) = Inr (Json ()) \<and>
   f_bodyUsed (objects (snd (call_accessor test_lib CallJson 0 post_request_heap)) 0) \<and>
   fst (call_accessor test_lib CallText 0 (snd (call_accessor test_lib CallJson 0 post_request_heap)))
     = Inl BodyAlreadyConsumed \<and>
   fst (Request_constructor test_lib (InputObject 0) None
          (snd (call_accessor test_lib CallJson 0 post_request_heap)))
     = Inl RequestBodyAlreadyUsed \<and>
   fst (Request_constructor test_lib (InputObject 0) None post_request_heap) = Inr 1 \<and>
   f_bodyUsed (objects (snd (Request_constructor test_lib (InputObject 0) None post_request_heap)) 0) \<and>
   \<not> f_bodyUsed (objects (snd (Request_constructor test_lib (InputObject 0) None post_request_heap)) 1)"
proof -
  let ?h = post_request_heap
  let ?h' = "snd (call_accessor test_lib CallJson 0 post_request_heap)"
  have h1: "f_class (objects ?h 0) = RequestClass" by code_simp
  have h2: "f_stream (objects ?h 0) \<noteq> None" by code_simp
  have h3: "\<not> f_bodyUsed (objects ?h 0)" by code_simp
  have h4: "0 < next_object ?h" and n: "next_object ?h = 1" by code_simp+
  have h5: "f_url (objects ?h 0) \<noteq> []" by code_simp
  have e1: "fst (call_accessor test_lib CallJson 0 ?h) = Inr (Json ())" by code_simp
  have k1: "f_class (objects ?h' 0) = RequestClass" by code_simp
  have k2: "f_stream (objects ?h' 0) \<noteq> None" by code_simp
  note t1 = body_single_use [of test_lib CallJson 0 ?h 0 None]
  note t2 = body_single_use [of test_lib CallText 0 ?h' 0 None]
  from t1 have u: "f_bodyUsed (objects ?h' 0)" by blast
  from t1 h1 h2 h3 h4 h5 n
  have c: "fst (Request_constructor test_lib (InputObject 0) None ?h) = Inr 1 \<and>
    f_bodyUsed (objects (snd (Request_constructor test_lib (InputObject 0) None ?h)) 0) \<and>
    \<not> f_bodyUsed (objects (snd (Request_constructor test_lib (InputObject 0) None ?h)) 1)"
    by simp
  from t2 k1 k2 u
  have d: "fst (Request_constructor test_lib (InputObject 0) None ?h') = Inl RequestBodyAlreadyUsed"
    by simp
  from call_accessor_used [OF u, of test_lib CallText]
  have s: "fst (call_accessor test_lib CallText 0 ?h') = Inl BodyAlreadyConsumed"
    by (simp only: fst_conv)
  from h1 h2 h3 h4 h5 e1 u s d c show ?thesis by blast
qed

text \<open>
  Claim C4 as stated fails for copies. A request without a stream can be copied after
  it was read, and an accessor call on the copy does not fail with the reuse error; a
  response constructed from a read response starts unused, and its \<open>text\<close> resolves with
  the empty string.
\<close>

theorem copy_of_used_body_counterexample:
  "copy_of_used_request
     = (Inr 0, Inl NullDereference, Inl BodyAlreadyConsumed, Inr 1, Inl (FormDataMimeType [])) \<and>
   copy_of_used_response
     = (Inr 0, Inr (Str ''hi''), Inl BodyAlreadyConsumed, Inr 1, Inr (Str [])) \<and>
   snd (snd (snd (snd copy_of_used_request))) \<noteq> Inl BodyAlreadyConsumed \<and>
   snd (snd (snd (snd copy_of_used_response))) \<noteq> Inl BodyAlreadyConsumed"
  by code_simp

text \<open>
  Claim C10. On a body that is not yet used and whose Content-Type (up to the first
  semicolon) is neither \<open>multipart/form-data\<close> nor \<open>application/x-www-form-urlencoded\<close>,
  \<open>formData\<close> fails with the type error for that MIME type and marks the body used:
  every later accessor call on the body fails with the reuse error.
\<close>

theorem formData_failure_marks_body_used:
  assumes "\<not> f_bodyUsed (objects h a)"
      and "mimeType_of (case Headers_get (f_headers (objects h a)) ''Content-Type'' of
                          None \<Rightarrow> [] | Some ct \<Rightarrow> ct) = mt"
      and "mt \<noteq> ''multipart/form-data''" and "mt \<noteq> ''application/x-www-form-urlencoded''"
  shows "fst (Body_formData L a h) = Inl (FormDataMimeType mt) \<and>
         f_bodyUsed (objects (snd (Body_formData L a h)) a) \<and>
         (\<forall>acc. fst (call_accessor L acc a (snd (Body_formData L a h))) = Inl BodyAlreadyConsumed) \<and>
         (\<forall>calls. \<forall>br \<in> set (fst (call_accessors L calls (snd (Body_formData L a h)))).
             fst br = a \<longrightarrow> snd br = Inl BodyAlreadyConsumed)"
proof -
  have hd: "f_headers (objects (snd (Body_consume L a h)) a) = f_headers (objects h a)"
    by (simp add: Body_consume_def update_object_def Let_def split: option.splits)
  have ok: "\<exists>buffer. fst (Body_consume L a h) = Inr buffer"
    using assms(1) by (simp add: Body_consume_def Let_def split: option.splits)
  then obtain buffer where b: "Body_consume L a h = (Inr buffer, snd (Body_consume L a h))"
    by (metis prod.collapse)
  have r: "fst (Body_formData L a h) = Inl (FormDataMimeType mt)"
    unfolding Body_formData_def using assms(2-4) hd by (subst b) (simp add: Let_def)
  have m: "f_bodyUsed (objects (snd (Body_formData L a h)) a)"
    using call_accessor_marks [of L CallFormData a h] by simp
  have s: "fst (call_accessor L acc a (snd (Body_formData L a h))) = Inl BodyAlreadyConsumed" for acc
    using m by (simp add: call_accessor_used)
  have c: "snd br = Inl BodyAlreadyConsumed"
    if "br \<in> set (fst (call_accessors L calls (snd (Body_formData L a h))))" and "fst br = a"
    for calls br
    using m that by (rule call_accessors_used_pair)
  from r m s c show ?thesis by blast
qed

theorem formData_failure_marks_body_used_witness:
  "\<not> f_bodyUsed (objects post_request_heap 0) \<and>
   mimeType_of (case Headers_get (f_headers (objects post_request_heap 0)) ''Content-Type'' of
                  None \<Rightarrow> [] | Some ct \<Rightarrow> ct) = ''application/json'' \<and>
   ''application/json'' \<noteq> ''multipart/form-data'' \<and>
   ''application/json'' \<noteq> ''application/x-www-form-urlencoded'' \<and>
   fst (Body_formData test_lib 0 post_request_heap) = Inl (FormDataMimeType ''application/json'') \<and>
   f_bodyUsed (objects (snd (Body_formData test_lib 0 post_request_heap)) 0) \<and>
   fst (call_accessor test_lib CallText 0 (snd (Body_formData test_lib 0 post_request_heap)))
     = Inl BodyAlreadyConsumed"
proof -
  have h1: "\<not> f_bodyUsed (objects post_request_heap 0)" by code_simp
  have h2: "mimeType_of (case Headers_get (f_headers (objects post_request_heap 0)) ''Content-Type'' of
                  None \<Rightarrow> [] | Some ct \<Rightarrow> ct) = ''application/json''" by code_simp
  have h3: "''application/json'' \<noteq> ''multipart/form-data''" by simp
  have h4: "''application/json'' \<noteq> ''application/x-www-form-urlencoded''" by simp
  from formData_failure_marks_body_used [OF h1 h2 h3 h4, of test_lib] h1 h2 h3 h4
  show ?thesis by blast
qed


section \<open>Asynchronous requests (xhr.js, class XMLHttpRequest)\<close>

text \<open>Lifecycle states, as the numbers the class exports.\<close>

definition UNSENT :: nat where "UNSENT = 0"
definition OPENED :: nat where "OPENED = 1"
definition HEADERS_RECEIVED :: nat where "HEADERS_RECEIVED = 2"
definition LOADING :: nat where "LOADING = 3"
definition DONE :: nat where "DONE = 4"

text \<open>
  \<^verbatim>\<open>DOM.DOMException(code, message)\<close> with the codes the class uses, and the
  \<^verbatim>\<open>TypeError\<close> of the language for a property access on \<^verbatim>\<open>null\<close>.
\<close>

datatype dom_code =
    NOT_SUPPORTED_ERR | SECURITY_ERR | SYNTAX_ERR | INVALID_STATE_ERR
  | NETWORK_ERR | ABORT_ERR | TIMEOUT_ERR

datatype xhr_exception = DOMException dom_code string | TypeError_null

text \<open>
  The parts of a parsed URL (\<^verbatim>\<open>URL.parse\<close>) that the code reads or writes; a missing
  part is \<open>None\<close>.
\<close>

record url_object =
  protocol :: "string option"
  auth :: "string option"
  hostname :: "string option"
  port :: "string option"
  host :: "string option"
  pathname :: "string option"
  search :: "string option"
  hash :: "string option"

text \<open>The URL library of the platform, and the location of the request's window.\<close>

record url_module =
  URL_resolve :: "string \<Rightarrow> string \<Rightarrow> string"
  URL_parse :: "string \<Rightarrow> url_object"
  URL_format_object :: "url_object \<Rightarrow> string"

record window =
  location_href :: string
  location_protocol :: string
  location_host :: string
  location_hostname :: string

text \<open>
  The request object that \<^verbatim>\<open>open\<close> creates. It is shared between the field
  \<^verbatim>\<open>_pending\<close> and the completion callback of \<^verbatim>\<open>send\<close>, so request objects live
  in a store inside the state and are named by address.
\<close>

record xhr_request =
  rq_method :: string
  rq_headers :: "string \<Rightarrow> string option"
  rq_url :: string
  rq_body :: "string option"
  rq_timeout :: nat
  rq_sent :: bool
  rq_aborted :: bool

record xhr_response =
  rs_statusCode :: nat
  rs_statusText :: string
  rs_headers :: "string \<Rightarrow> string option"
  rs_body :: string

record net_error =
  err_code :: "string option"
  err_message :: string

text \<open>An event dispatched by \<^verbatim>\<open>_fire\<close>: its name, its error, and the ready state then.\<close>

record xhr_event =
  ev_name :: string
  ev_error :: "xhr_exception option"
  ev_readyState :: nat

record xhr =
  readyState :: nat
  x_pending :: "nat option"
  x_requests :: "nat \<Rightarrow> xhr_request"
  x_next_request :: nat
  x_cors :: "string option"
  x_response :: "xhr_response option"
  x_error :: "xhr_exception option"
  x_url :: string
  x_timeout :: nat
  dispatched :: "xhr_event list"
  browser_errors :: "xhr_exception list"
  document_raised :: "(string \<times> string \<times> xhr_exception) list"
  http_queue :: "nat list"

definition blank_request :: xhr_request where
  "blank_request =
     \<lparr>rq_method = [], rq_headers = (\<lambda>name. None), rq_url = [], rq_body = None, rq_timeout = 0,
      rq_sent = False, rq_aborted = False\<rparr>"

text \<open>The constructor.\<close>

definition new_xhr :: xhr where
  "new_xhr =
     \<lparr>readyState = UNSENT, x_pending = None, x_requests = (\<lambda>a. blank_request),
      x_next_request = 0, x_cors = None, x_response = None, x_error = None, x_url = [],
      x_timeout = 0, dispatched = [], browser_errors = [], document_raised = [],
      http_queue = []\<rparr>"

definition fire :: "string \<Rightarrow> xhr_exception option \<Rightarrow> xhr \<Rightarrow> xhr" where
  "fire eventName error x =
     x\<lparr>dispatched := dispatched x @
          [\<lparr>ev_name = eventName, ev_error = error, ev_readyState = readyState x\<rparr>]\<rparr>"

definition stateChanged :: "nat \<Rightarrow> xhr \<Rightarrow> xhr" where
  "stateChanged newState x = fire ''readystatechange'' None (x\<lparr>readyState := newState\<rparr>)"

definition raise :: "string \<Rightarrow> string \<Rightarrow> xhr_exception \<Rightarrow> xhr \<Rightarrow> xhr" where
  "raise type message exception x =
     x\<lparr>document_raised := document_raised x @ [(type, message, exception)]\<rparr>"

definition update_request :: "nat \<Rightarrow> (xhr_request \<Rightarrow> xhr_request) \<Rightarrow> xhr \<Rightarrow> xhr" where
  "update_request a f x = x\<lparr>x_requests := (x_requests x)(a := f (x_requests x a))\<rparr>"

text \<open>
  \<^verbatim>\<open>abort\<close>. Reading \<^verbatim>\<open>request.sent\<close> or writing \<^verbatim>\<open>request.aborted\<close> when no
  request is pending is a \<^verbatim>\<open>TypeError\<close>.
\<close>

definition abort :: "xhr \<Rightarrow> (xhr_exception + unit) \<times> xhr" where
  "abort x =
     (let request = x_pending x in
      if readyState x = UNSENT then (Inr (), x\<lparr>readyState := UNSENT\<rparr>)
      else case request of
        None \<Rightarrow> (Inl TypeError_null, x)
      | Some r \<Rightarrow>
          if readyState x = OPENED \<and> \<not> rq_sent (x_requests x r)
          then (Inr (), x\<lparr>readyState := UNSENT\<rparr>)
          else (Inr (), update_request r (\<lambda>request. request\<lparr>rq_aborted := True\<rparr>) x))"

definition or_empty :: "string option \<Rightarrow> string" where
  "or_empty s = (case s of None \<Rightarrow> [] | Some v \<Rightarrow> v)"

definition truthy :: "string option \<Rightarrow> bool" where
  "truthy s = (case s of None \<Rightarrow> False | Some v \<Rightarrow> v \<noteq> [])"

text \<open>
  \<^verbatim>\<open>open\<close>. The argument \<open>useAsync\<close> is \<open>None\<close> when it is not given. The state
  returned with an exception is the state the exception leaves behind.
\<close>

definition xhr_open ::
  "url_module \<Rightarrow> window \<Rightarrow> string \<Rightarrow> string \<Rightarrow> bool option \<Rightarrow> string option \<Rightarrow> string option
     \<Rightarrow> xhr \<Rightarrow> (xhr_exception + unit) \<times> xhr" where
  "xhr_open U w method0 url0 useAsync user password x =
     (if useAsync = Some False
      then (Inl (DOMException NOT_SUPPORTED_ERR ''Zombie does not support synchronous XHR requests''), x)
      else case abort x of
        (Inl e, x1) \<Rightarrow> (Inl e, x1)
      | (Inr u, x1) \<Rightarrow>
          let method = toUpperCase method0 in
          if method \<in> {''CONNECT'', ''TRACE'', ''TRACK''}
          then (Inl (DOMException SECURITY_ERR ''Unsupported HTTP method''), x1)
          else if method \<notin> {''DELETE'', ''GET'', ''HEAD'', ''OPTIONS'', ''POST'', ''PUT''}
          then (Inl (DOMException SYNTAX_ERR ''Unsupported HTTP method''), x1)
          else
            let url1 = URL_parse U (URL_resolve U (location_href w) url0);
                url2 = (if (protocol url1 = Some ''https:'' \<and> port url1 = Some ''443'') \<or>
                           (protocol url1 = Some ''http:'' \<and> port url1 = Some ''80'')
                        then url1\<lparr>port := None\<rparr> else url1)
            in
            if toLowerCase (case protocol url2 of None \<Rightarrow> ''null'' | Some p \<Rightarrow> p)
                 \<notin> {''http:'', ''https:''}
            then (Inl (DOMException NOT_SUPPORTED_ERR ''Only HTTP/S protocol supported''), x1)
            else
              let hostname' = (if truthy (hostname url2) then or_empty (hostname url2)
                               else location_hostname w);
                  host' = (if truthy (port url2) then hostname' @ '':'' @ or_empty (port url2)
                           else hostname');
                  url3 = url2\<lparr>hostname := Some hostname', host := Some host'\<rparr>;
                  cross = (host' \<noteq> location_host w);
                  origin = location_protocol w @ ''//'' @ location_host w;
                  headers = (if cross then (\<lambda>name. None)(''origin'' := Some origin)
                             else (\<lambda>name. None));
                  x2 = (if cross then x1\<lparr>x_cors := Some origin\<rparr> else x1);
                  url4 = url3\<lparr>hash := None\<rparr>;
                  url5 = (if truthy user
                          then url4\<lparr>auth := Some (or_empty user @ '':'' @
                                                     (case password of None \<Rightarrow> ''undefined'' | Some p \<Rightarrow> p))\<rparr>
                          else url4);
                  x3 = x2\<lparr>x_url := URL_format_object U url5, x_response := None, x_error := None\<rparr>;
                  request = blank_request\<lparr>rq_method := method, rq_headers := headers,
                                           rq_url := URL_format_object U url5\<rparr>;
                  a = x_next_request x3;
                  x4 = x3\<lparr>x_requests := (x_requests x3)(a := request),
                           x_next_request := Suc a, x_pending := Some a\<rparr>
              in (Inr (), stateChanged OPENED x4))"

definition setRequestHeader :: "string \<Rightarrow> string \<Rightarrow> xhr \<Rightarrow> (xhr_exception + unit) \<times> xhr" where
  "setRequestHeader header v x =
     (if readyState x \<noteq> OPENED then (Inl (DOMException INVALID_STATE_ERR ''Invalid state''), x)
      else case x_pending x of
        None \<Rightarrow> (Inl TypeError_null, x)
      | Some r \<Rightarrow>
          (Inr (), update_request r
             (\<lambda>request. request\<lparr>rq_headers := (rq_headers request)(toLowerCase header := Some v)\<rparr>) x))"

text \<open>
  \<^verbatim>\<open>send\<close> hands the request to the event queue of the window (\<open>http_queue\<close>); the
  queue calls the completion callback later.
\<close>

definition send :: "string option \<Rightarrow> xhr \<Rightarrow> (xhr_exception + unit) \<times> xhr" where
  "send data x =
     (if readyState x \<noteq> OPENED then (Inl (DOMException INVALID_STATE_ERR ''Invalid state''), x)
      else
        let x1 = fire ''loadstart'' None x in
        case x_pending x1 of
          None \<Rightarrow> (Inl TypeError_null, x1)
        | Some r \<Rightarrow>
            let x2 = update_request r
                       (\<lambda>request. request
                          \<lparr>rq_headers := (rq_headers request)
                              (''content-type'' :=
                                 Some (if truthy (rq_headers request ''content-type'')
                                       then or_empty (rq_headers request ''content-type'')
                                       else ''text/plain'')),
                           rq_body := data, rq_timeout := x_timeout x1\<rparr>) x1;
                x3 = x2\<lparr>http_queue := http_queue x2 @ [r]\<rparr>
            in (Inr (), update_request r (\<lambda>request. request\<lparr>rq_sent := True\<rparr>) x3))"

text \<open>
  The completion callback that \<^verbatim>\<open>send\<close> passes to the queue, for the request at
  address \<open>r\<close>; the queue calls it with an error or with a response.
\<close>

definition send_callback :: "nat \<Rightarrow> net_error + xhr_response \<Rightarrow> xhr \<Rightarrow> xhr" where
  "send_callback r outcome x =
     (let x0 = (if x_pending x = Some r then x\<lparr>x_pending := None\<rparr> else x) in
      if rq_aborted (x_requests x0 r) then
        (let x1 = stateChanged DONE x0;
             x2 = fire ''progress'' None x1;
             x3 = x2\<lparr>x_error := Some (DOMException ABORT_ERR ''Request aborted'')\<rparr>
         in fire ''abort'' (x_error x3) x3)
      else case outcome of
        Inl error \<Rightarrow>
          (let x1 = stateChanged DONE x0;
               x2 = fire ''progress'' None x1;
               timedOut = (err_code error = Some ''ETIMEDOUT'');
               e = (if timedOut then DOMException TIMEOUT_ERR ''The request timed out''
                    else DOMException NETWORK_ERR (err_message error));
               x3 = x2\<lparr>x_error := Some e\<rparr>;
               x4 = fire (if timedOut then ''timeout'' else ''error'') (x_error x3) x3;
               x5 = fire ''loadend'' None x4
           in x5\<lparr>browser_errors := browser_errors x5 @ [e]\<rparr>)
      | Inr response \<Rightarrow>
          (let allowedOrigin = rs_headers response ''access-control-allow-origin'' in
           if truthy (x_cors x0) \<and> \<not> (allowedOrigin = Some ''*'' \<or> allowedOrigin = x_cors x0) then
             (let e = DOMException SECURITY_ERR ''Cannot make request to different domain'';
                  x1 = x0\<lparr>x_error := Some e\<rparr>;
                  x2 = x1\<lparr>browser_errors := browser_errors x1 @ [e]\<rparr>;
                  x3 = stateChanged DONE x2;
                  x4 = fire ''progress'' None x3;
                  x5 = fire ''error'' (x_error x4) x4;
                  x6 = fire ''loadend'' None x5
              in raise ''error'' ''Cannot make request to different domain'' e x6)
           else
             (let x1 = x0\<lparr>x_response := Some response\<rparr>;
                  x2 = stateChanged HEADERS_RECEIVED x1;
                  x3 = stateChanged LOADING x2;
                  x4 = stateChanged DONE x3;
                  x5 = fire ''progress'' None x4;
                  x6 = fire ''load'' None x5
              in fire ''loadend'' None x6)))"

text \<open>The getters.\<close>

definition status :: "xhr \<Rightarrow> nat option" where
  "status x = (case x_response x of Some response \<Rightarrow> Some (rs_statusCode response)
               | None \<Rightarrow> (case x_error x of Some e \<Rightarrow> Some 0 | None \<Rightarrow> None))"

definition statusText :: "xhr \<Rightarrow> string option" where
  "statusText x = (case x_response x of Some response \<Rightarrow> Some (rs_statusText response)
                   | None \<Rightarrow> (case x_error x of Some e \<Rightarrow> Some [] | None \<Rightarrow> None))"

definition responseText :: "xhr \<Rightarrow> string option" where
  "responseText x =
     (case x_response x of
        Some response \<Rightarrow> if readyState x \<ge> LOADING then Some (rs_body response) else None
      | None \<Rightarrow> None)"


subsection \<open>An example window\<close>

text \<open>The example parser knows two URLs; \<open>resolve\<close> takes its second argument as absolute.\<close>

definition test_parse :: "string \<Rightarrow> url_object" where
  "test_parse u =
     (if u = ''http://example.test/data'' then
        \<lparr>protocol = Some ''http:'', auth = None, hostname = Some ''example.test'', port = None,
         host = Some ''example.test'', pathname = Some ''/data'', search = None, hash = None\<rparr>
      else if u = ''http://other.test:80/data'' then
        \<lparr>protocol = Some ''http:'', auth = None, hostname = Some ''other.test'', port = Some ''80'',
         host = Some ''other.test:80'', pathname = Some ''/data'', search = None, hash = None\<rparr>
      else
        \<lparr>protocol = None, auth = None, hostname = None, port = None, host = None,
         pathname = Some u, search = None, hash = None\<rparr>)"

definition test_format :: "url_object \<Rightarrow> string" where
  "test_format u =
     or_empty (protocol u) @ ''//'' @
     (case auth u of None \<Rightarrow> [] | Some a \<Rightarrow> a @ ''@'') @
     or_empty (host u) @ or_empty (pathname u) @ or_empty (search u) @ or_empty (hash u)"

definition test_URL :: url_module where
  "test_URL =
     \<lparr>URL_resolve = (\<lambda>base u. u), URL_parse = test_parse, URL_format_object = test_format\<rparr>"

definition test_window :: window where
  "test_window =
     \<lparr>location_href = ''http://example.test/page'', location_protocol = ''http:'',
      location_host = ''example.test'', location_hostname = ''example.test''\<rparr>"

definition plain_response :: xhr_response where
  "plain_response =
     \<lparr>rs_statusCode = 200, rs_statusText = ''OK'',
      rs_headers = (\<lambda>name. None)(''content-type'' := Some ''text/plain''), rs_body = ''hello''\<rparr>"

text \<open>
  \<^verbatim>\<open>xhr.open('GET', url); xhr.send(); xhr.abort()\<close>, and then the queue completes the
  request with a response.
\<close>

definition aborted_after_send :: "string \<Rightarrow> xhr" where
  "aborted_after_send url =
     (let x1 = snd (xhr_open test_URL test_window ''GET'' url None None None new_xhr);
          x2 = snd (send None x1);
          x3 = snd (abort x2)
      in send_callback 0 (Inr plain_response) x3)"

text \<open>\<^verbatim>\<open>xhr.open('GET', url); xhr.send()\<close>, before the queue completes the request.\<close>

definition sent_request :: "string \<Rightarrow> xhr" where
  "sent_request url =
     (let x1 = snd (xhr_open test_URL test_window ''GET'' url None None None new_xhr)
      in snd (send None x1))"

text \<open>The names of the events dispatched between two states.\<close>

definition new_events :: "xhr \<Rightarrow> xhr \<Rightarrow> string list" where
  "new_events x x' = map ev_name (drop (length (dispatched x)) (dispatched x'))"


section \<open>Properties of asynchronous requests\<close>

lemma send_callback_aborted:
  assumes "rq_aborted (x_requests x r)"
  shows "new_events x (send_callback r outcome x) = [''readystatechange'', ''progress'', ''abort'']"
    and "x_error (send_callback r outcome x) = Some (DOMException ABORT_ERR ''Request aborted'')"
    and "document_raised (send_callback r outcome x) = document_raised x"
    and "x_response (send_callback r outcome x) = x_response x"
    and "readyState (send_callback r outcome x) = DONE"
  using assms
  by (simp_all add: send_callback_def new_events_def Let_def stateChanged_def fire_def)

lemma send_callback_rejected:
  assumes "\<not> rq_aborted (x_requests x r)" and "x_cors x = Some origin" and "origin \<noteq> []"
      and "rs_headers response ''access-control-allow-origin'' \<noteq> Some ''*''"
      and "rs_headers response ''access-control-allow-origin'' \<noteq> Some origin"
  shows "new_events x (send_callback r (Inr response) x)
           = [''readystatechange'', ''progress'', ''error'', ''loadend'']"
    and "x_error (send_callback r (Inr response) x)
           = Some (DOMException SECURITY_ERR ''Cannot make request to different domain'')"
    and "document_raised (send_callback r (Inr response) x)
           = document_raised x @ [(''error'', ''Cannot make request to different domain'',
                DOMException SECURITY_ERR ''Cannot make request to different domain'')]"
    and "browser_errors (send_callback r (Inr response) x)
           = browser_errors x @ [DOMException SECURITY_ERR ''Cannot make request to different domain'']"
    and "x_response (send_callback r (Inr response) x) = x_response x"
    and "readyState (send_callback r (Inr response) x) = DONE"
  using assms
  by (simp_all add: send_callback_def new_events_def Let_def stateChanged_def fire_def raise_def
      truthy_def)

lemma send_callback_load:
  assumes "x_cors x = Some origin" and "origin \<noteq> []"
      and "''load'' \<in> set (new_events x (send_callback r (Inr response) x))"
  shows "rs_headers response ''access-control-allow-origin'' = Some ''*'' \<or>
         rs_headers response ''access-control-allow-origin'' = Some origin"
proof (rule ccontr)
  assume n: "\<not> ?thesis"
  show False
  proof (cases "rq_aborted (x_requests x r)")
    case True
    from send_callback_aborted(1) [OF True, of "Inr response"] assms(3) show False by simp
  next
    case False
    from send_callback_rejected(1) [OF False assms(1,2), of response] n assms(3)
    show False by simp
  qed
qed

lemma send_callback_success:
  assumes "\<not> rq_aborted (x_requests x r)" and "x_cors x = Some origin"
      and "rs_headers response ''access-control-allow-origin'' = Some ''*'' \<or>
           rs_headers response ''access-control-allow-origin'' = Some origin"
  shows "new_events x (send_callback r (Inr response) x)
           = [''readystatechange'', ''readystatechange'', ''readystatechange'', ''progress'',
              ''load'', ''loadend'']"
    and "x_response (send_callback r (Inr response) x) = Some response"
    and "document_raised (send_callback r (Inr response) x) = document_raised x"
  using assms
  by (auto simp: send_callback_def new_events_def Let_def stateChanged_def fire_def raise_def
      truthy_def)

lemma send_callback_loadend_last:
  assumes "\<not> rq_aborted (x_requests x r)"
  shows "last (new_events x (send_callback r outcome x)) = ''loadend''"
  using assms
  by (cases outcome)
     (simp_all add: send_callback_def new_events_def Let_def stateChanged_def fire_def raise_def)

text \<open>
  Claim C7, as the code has it. Let a request object be flagged cross-origin (\<open>_cors\<close>
  holds the caller's origin, as \<open>open\<close> sets it) when the queue completes a request
  with a response. The \<open>load\<close> event is dispatched only if the response carries the
  property \<open>access-control-allow-origin\<close> equal to \<open>*\<close> or to exactly the caller's
  origin. If the request was not aborted and the response lacks such a header, the
  outcome is the security error: the state becomes DONE, the events are
  \<open>readystatechange\<close>, \<open>progress\<close>, \<open>error\<close>, \<open>loadend\<close>, no response is stored, and
  the error is pushed to the browser's errors and raised to the document. If the request
  was aborted after it was sent, the outcome is the abort (never success) whatever the
  response carries, and nothing is raised to the document.
\<close>

theorem cors_check_unless_aborted:
  assumes "x_cors x = Some origin" and "origin \<noteq> []"
  shows "(''load'' \<in> set (new_events x (send_callback r (Inr response) x)) \<longrightarrow>
            rs_headers response ''access-control-allow-origin'' = Some ''*'' \<or>
            rs_headers response ''access-control-allow-origin'' = Some origin) \<and>
         (\<not> rq_aborted (x_requests x r) \<and>
          rs_headers response ''access-control-allow-origin'' \<noteq> Some ''*'' \<and>
          rs_headers response ''access-control-allow-origin'' \<noteq> Some origin \<longrightarrow>
            new_events x (send_callback r (Inr response) x)
              = [''readystatechange'', ''progress'', ''error'', ''loadend''] \<and>
            readyState (send_callback r (Inr response) x) = DONE \<and>
            x_error (send_callback r (Inr response) x)
              = Some (DOMException SECURITY_ERR ''Cannot make request to different domain'') \<and>
            x_response (send_callback r (Inr response) x) = x_response x \<and>
            document_raised (send_callback r (Inr response) x)
              = document_raised x @ [(''error'', ''Cannot make request to different domain'',
                   DOMException SECURITY_ERR ''Cannot make request to different domain'')] \<and>
            browser_errors (send_callback r (Inr response) x)
              = browser_errors x @ [DOMException SECURITY_ERR ''Cannot make request to different domain'']) \<and>
         (\<not> rq_aborted (x_requests x r) \<and>
          (rs_headers response ''access-control-allow-origin'' = Some ''*'' \<or>
           rs_headers response ''access-control-allow-origin'' = Some origin) \<longrightarrow>
            new_events x (send_callback r (Inr response) x)
              = [''readystatechange'', ''readystatechange'', ''readystatechange'', ''progress'',
                 ''load'', ''loadend''] \<and>
            x_response (send_callback r (Inr response) x) = Some response \<and>
            document_raised (send_callback r (Inr response) x) = document_raised x) \<and>
         (rq_aborted (x_requests x r) \<longrightarrow>
            new_events x (send_callback r (Inr response) x)
              = [''readystatechange'', ''progress'', ''abort''] \<and>
            x_error (send_callback r (Inr response) x)
              = Some (DOMException ABORT_ERR ''Request aborted'') \<and>
            x_response (send_callback r (Inr response) x) = x_response x \<and>
            document_raised (send_callback r (Inr response) x) = document_raised x)"
proof (intro conjI impI)
  assume "''load'' \<in> set (new_events x (send_callback r (Inr response) x))"
  with assms show "rs_headers response ''access-control-allow-origin'' = Some ''*'' \<or>
            rs_headers response ''access-control-allow-origin'' = Some origin"
    by (rule send_callback_load)
qed (simp_all add: send_callback_rejected [OF _ assms] send_callback_success [OF _ assms(1)]
       send_callback_aborted)

theorem cors_check_unless_aborted_witness:
  "x_cors (sent_request ''http://other.test:80/data'') = Some ''http://example.test'' \<and>
   ''http://example.test'' \<noteq> [] \<and>
   \<not> rq_aborted (x_requests (sent_request ''http://other.test:80/data'') 0) \<and>
   rs_headers plain_response ''access-control-allow-origin'' \<noteq> Some ''*'' \<and>
   rs_headers plain_response ''access-control-allow-origin'' \<noteq> Some ''http://example.test'' \<and>
   new_events (sent_request ''http://other.test:80/data'')
      (send_callback 0 (Inr plain_response) (sent_request ''http://other.test:80/data''))
     = [''readystatechange'', ''progress'', ''error'', ''loadend''] \<and>
   document_raised (send_callback 0 (Inr plain_response) (sent_request ''http://other.test:80/data''))
     = [(''error'', ''Cannot make request to different domain'',
         DOMException SECURITY_ERR ''Cannot make request to different domain'')]"
proof -
  let ?x = "sent_request ''http://other.test:80/data''"
  have h1: "x_cors ?x = Some ''http://example.test''" by code_simp
  have h2: "''http://example.test'' \<noteq> []" by simp
  have h3: "\<not> rq_aborted (x_requests ?x 0)" by code_simp
  have h4: "rs_headers plain_response ''access-control-allow-origin'' \<noteq> Some ''*''" by code_simp
  have h5: "rs_headers plain_response ''access-control-allow-origin'' \<noteq> Some ''http://example.test''"
    by code_simp
  have d: "document_raised ?x = []" by code_simp
  from cors_check_unless_aborted [OF h1 h2, of 0 plain_response] h1 h2 h3 h4 h5 d
  show ?thesis by simp
qed

text \<open>
  Claim C7 as stated fails for a request aborted in flight: a cross-origin request is
  opened, sent and aborted, and then completes with a response without the header. The
  outcome is the abort event, and no error is raised to the document.
\<close>

theorem aborted_cross_origin_not_raised_counterexample:
  "x_cors (aborted_after_send ''http://other.test:80/data'') = Some ''http://example.test'' \<and>
   rs_headers plain_response ''access-control-allow-origin'' = None \<and>
   map ev_name (dispatched (aborted_after_send ''http://other.test:80/data''))
     = [''readystatechange'', ''loadstart'', ''readystatechange'', ''progress'', ''abort''] \<and>
   x_error (aborted_after_send ''http://other.test:80/data'')
     = Some (DOMException ABORT_ERR ''Request aborted'') \<and>
   document_raised (aborted_after_send ''http://other.test:80/data'') = []"
  by code_simp

text \<open>
  Claim C9 on the abort path: a request is opened, sent and aborted, and then the queue
  completes it. The state becomes DONE and the events \<open>progress\<close> and \<open>abort\<close> are
  dispatched, but no \<open>loadend\<close> follows; on every other path of the callback the last
  event is \<open>loadend\<close> (lemma \<open>send_callback_loadend_last\<close>).
\<close>

theorem aborted_request_fires_no_loadend:
  "map ev_name (dispatched (aborted_after_send ''http://example.test/data''))
     = [''readystatechange'', ''loadstart'', ''readystatechange'', ''progress'', ''abort''] \<and>
   readyState (aborted_after_send ''http://example.test/data'') = DONE \<and>
   ''loadend'' \<notin> set (map ev_name (dispatched (aborted_after_send ''http://example.test/data'')))"
  by code_simp


section \<open>The resource pipeline (resources.js)\<close>

subsection \<open>Requests, responses and the browser\<close>

text \<open>A body is absent, a string, or a buffer of bytes.\<close>

datatype js_body = NoBody | TextBody string | BufferBody string

fun truthy_body :: "js_body \<Rightarrow> bool" where
  "truthy_body NoBody = False"
| "truthy_body (TextBody s) = (s \<noteq> [])"
| "truthy_body (BufferBody b) = True"

text \<open>
  The errors a fetch can end with: the error of \<^verbatim>\<open>handleResponse\<close>, the error of
  \<^verbatim>\<open>createBody\<close>, errors of the file system, the transport and zlib, the exceptions of
  \<^verbatim>\<open>iconv.decode\<close> (for a character set it does not know) and of \<^verbatim>\<open>decodeURI\<close>, the
  failed assertion of \<^verbatim>\<open>nextRequestHandler\<close>, and an error passed by a handler that
  was added to the pipeline.
\<close>

datatype pipeline_error =
    TooManyRedirects nat
  | UnsupportedContentType string
  | ReadFileError string
  | TransportError net_error
  | ZlibError string
  | EncodingError string
  | URIError
  | AssertionError
  | HandlerError string

text \<open>
  Request parameters: each name with its array of values; a value is a text or a
  file-like object (its string form, its \<^verbatim>\<open>mime\<close> property, what \<^verbatim>\<open>read\<close> returns).
\<close>

datatype param_value =
    ParamText string
  | ParamFile string "string option" string

type_synonym params = "(string \<times> param_value list) list"

record mime_part =
  part_disposition :: string
  part_type :: string
  part_length :: nat
  part_body :: string

record request =
  req_method :: string
  req_url :: string
  req_headers :: Headers
  req_params :: "params option"
  req_body :: js_body
  req_multipart :: "mime_part list option"
  req_time :: nat
  req_timeout :: nat
  req_redirects :: "nat option"
  req_strictSSL :: bool
  req_localAddress :: "string option"
  req_error :: "pipeline_error option"

text \<open>
  A response object; a property that is not set is \<open>None\<close>. The headers are whatever
  the constructor of \<^verbatim>\<open>Headers\<close> accepts.
\<close>

record response =
  res_url :: "string option"
  res_statusCode :: "nat option"
  res_statusText :: "string option"
  res_headers :: "(string \<times> string) list"
  res_body :: js_body
  res_redirects :: "nat option"
  res_time :: "nat option"

definition empty_response :: response where
  "empty_response =
     \<lparr>res_url = None, res_statusCode = None, res_statusText = None, res_headers = [],
      res_body = NoBody, res_redirects = None, res_time = None\<rparr>"

text \<open>What the HTTP client library reports when a request completes.\<close>

datatype header_value = Single string | Multiple "string list"

record wire_response =
  w_statusCode :: nat
  w_headers :: "(string \<times> header_value) list"
  w_body :: string
  w_redirects :: "nat option"

text \<open>Handlers of the pipeline, classified by the number of their parameters.\<close>

datatype request_outcome = Pass | Respond response | Fail pipeline_error

datatype response_outcome = Next response | Failed pipeline_error | Redirect request

text \<open>
  The handlers of the class, and handlers added with \<^verbatim>\<open>addHandler\<close>. An added
  request handler answers its continuation with nothing, with a response or with an
  error, and an added response handler with a response or an error; a handler that
  throws is one that answers with the error, and a handler that changes the request or
  never answers is not modelled.
\<close>

datatype handler =
    NormalizeURL
  | MergeHeaders
  | CreateBody
  | MakeHTTPRequest
  | HandleResponse
  | DecompressBody
  | DecodeBody
  | RequestHandler "request \<Rightarrow> request_outcome"
  | ResponseHandler "request \<Rightarrow> response \<Rightarrow> pipeline_error + response"

fun arity :: "handler \<Rightarrow> nat" where
  "arity NormalizeURL = 2"
| "arity MergeHeaders = 2"
| "arity CreateBody = 2"
| "arity MakeHTTPRequest = 2"
| "arity (RequestHandler f) = 2"
| "arity HandleResponse = 3"
| "arity DecompressBody = 3"
| "arity DecodeBody = 3"
| "arity (ResponseHandler f) = 3"

datatype event =
    EvRequest request
  | EvResponse request response
  | EvRedirect request response request
  | EvAuthenticate "string option"
  | EvLog string

record resource =
  rsrc_request :: request
  rsrc_target :: "string option"
  rsrc_error :: "pipeline_error option"
  rsrc_response :: "response option"

text \<open>
  The configuration of the browser and the libraries the handlers call. \<open>'c\<close> is the
  cookie store and \<open>'w\<close> the world beyond the transport (servers, clock, randomness).
\<close>

record ('c, 'w) env =
  URL :: url_module
  maxRedirects :: nat
  browser_headers :: "(string \<times> string) list"
  userAgent :: string
  site :: "string option"
  strictSSL :: bool
  localAddress :: "string option"
  document :: "string option"
  pipeline :: "handler list"
  DOM_resolve :: "string \<Rightarrow> string \<Rightarrow> string"
  resolveHref :: "string \<Rightarrow> string \<Rightarrow> string"
  URL_merge_query :: "string \<Rightarrow> params \<Rightarrow> string"
  QS_stringify :: "params \<Rightarrow> string"
  base64 :: "string \<Rightarrow> string"
  authenticate :: "string option \<Rightarrow> string option \<times> string option"
  Cookies_serialize :: "'c \<Rightarrow> string option \<Rightarrow> string option \<Rightarrow> string"
  Cookies_update :: "string list \<Rightarrow> string option \<Rightarrow> string option \<Rightarrow> 'c \<Rightarrow> 'c"
  transport :: "request \<Rightarrow> 'w \<Rightarrow> (net_error + wire_response) \<times> 'w"
  decodeURI :: "string \<Rightarrow> string option"
  Path_normalize :: "string \<Rightarrow> string"
  Zlib_inflate :: "js_body \<Rightarrow> pipeline_error + string"
  Zlib_gunzip :: "js_body \<Rightarrow> pipeline_error + string"
  iconv_decode :: "string \<Rightarrow> string \<Rightarrow> string option"
  MATCH_CHARSET :: "string \<Rightarrow> string option"
  HTTP_STATUS_CODES :: "nat \<Rightarrow> string option"
  Date_now :: "'w \<Rightarrow> nat"
  multipart_boundary :: "'w \<Rightarrow> string"

text \<open>
  What a fetch can change: the cookie store, the world, the emitted events and the
  history of resources. The file system maps a file name to the bytes of the file or to
  the error that reading it gives; a name that is not mapped does not exist.
\<close>

record ('c, 'w) browser =
  cookies :: 'c
  world :: 'w
  fs :: "string \<Rightarrow> (string + string) option"
  events :: "event list"
  resources :: "resource list"

definition emit :: "event \<Rightarrow> ('c, 'w) browser \<Rightarrow> ('c, 'w) browser" where
  "emit ev b = b\<lparr>events := events b @ [ev]\<rparr>"

subsection \<open>The handlers of the class\<close>

definition normalizeURL :: "('c, 'w) env \<Rightarrow> request \<Rightarrow> request" where
  "normalizeURL E req =
     (let req1 = (case document E of
                    Some doc \<Rightarrow> req\<lparr>req_url := DOM_resolve E doc (req_url req)\<rparr>
                  | None \<Rightarrow>
                      req\<lparr>req_url := resolveHref E (if truthy (site E) then or_empty (site E)
                                                      else ''http://localhost'') (req_url req)\<rparr>)
      in case req_params req1 of
           None \<Rightarrow> req1
         | Some ps \<Rightarrow>
             if req_method req1 = ''GET'' \<or> req_method req1 = ''HEAD'' \<or> req_method req1 = ''DELETE''
             then req1\<lparr>req_url := URL_merge_query E (req_url req1) ps\<rparr>
             else req1)"

definition string_or_null :: "string option \<Rightarrow> string" where
  "string_or_null s = (case s of None \<Rightarrow> ''null'' | Some v \<Rightarrow> v)"

definition mergeHeaders ::
  "('c, 'w) env \<Rightarrow> request \<Rightarrow> ('c, 'w) browser \<Rightarrow> request \<times> ('c, 'w) browser" where
  "mergeHeaders E req b =
     (let h1 = foldl (\<lambda>hs (name, v). Headers_append name v hs) (req_headers req) (browser_headers E);
          h2 = (if \<not> Headers_has h1 ''User-Agent'' then Headers_set ''User-Agent'' (userAgent E) h1
                else h1);
          host' = host (URL_parse (URL E) (req_url req));
          h3 = Headers_set ''Host'' (string_or_null host') h2;
          b1 = emit (EvAuthenticate host') b;
          (username, password) = authenticate E host'
      in if truthy username \<and> truthy password then
           (let b2 = emit (EvLog (''Authenticating as '' @ or_empty username @ '':'' @ or_empty password)) b1;
                encoded = base64 E (or_empty username @ '':'' @ or_empty password)
            in (req\<lparr>req_headers := Headers_set ''authorization'' (''Basic '' @ encoded) h3\<rparr>, b2))
         else (req\<lparr>req_headers := h3\<rparr>, b1))"

text \<open>The function \<^verbatim>\<open>formData\<close> of the module: one part of a multipart body.\<close>

definition formData :: "string \<Rightarrow> param_value \<Rightarrow> mime_part" where
  "formData name v =
     (case v of
        ParamFile str mime buffer \<Rightarrow>
          \<lparr>part_disposition = ''form-data; name=\"'' @ name @ ''\"; filename=\"'' @ str @ ''\"'',
           part_type = (if truthy mime then or_empty mime else ''application/octet-stream''),
           part_length = length buffer,
           part_body = buffer\<rparr>
      | ParamText text \<Rightarrow>
          \<lparr>part_disposition = ''form-data; name=\"'' @ name @ ''\"'',
           part_type = ''text/plain; charset=utf8'',
           part_length = length text,
           part_body = text\<rparr>)"

definition createBody :: "('c, 'w) env \<Rightarrow> request \<Rightarrow> 'w \<Rightarrow> request_outcome \<times> request" where
  "createBody E req w =
     (if req_method req \<noteq> ''POST'' \<and> req_method req \<noteq> ''PUT'' then (Pass, req)
      else
        let headers1 = Headers_set ''content-type''
                         (if truthy (Headers_get (req_headers req) ''content-type'')
                          then or_empty (Headers_get (req_headers req) ''content-type'')
                          else ''application/x-www-form-urlencoded'') (req_headers req);
            mimeType = mimeType_of (or_empty (Headers_get headers1 ''content-type''));
            req1 = req\<lparr>req_headers := headers1\<rparr>
        in
        if truthy_body (req_body req1) then (Pass, req1)
        else
          let params = (case req_params req1 of None \<Rightarrow> [] | Some ps \<Rightarrow> ps) in
          if mimeType = ''application/x-www-form-urlencoded'' then
            (let body = QS_stringify E params
             in (Pass, req1\<lparr>req_body := TextBody body,
                            req_headers := Headers_set ''content-length''
                                             (string_of_nat (length body)) headers1\<rparr>))
          else if mimeType = ''multipart/form-data'' then
            (if length params = 0
             then (Pass, req1\<lparr>req_headers := Headers_set ''content-type'' ''text/plain'' headers1,
                                 req_body := TextBody []\<rparr>)
             else
               let boundary = multipart_boundary E w;
                   withBoundary = or_empty (Headers_get headers1 ''content-type'') @
                                  ''; boundary='' @ boundary
               in (Pass, req1\<lparr>req_headers := Headers_set ''content-type'' withBoundary headers1,
                              req_multipart :=
                                Some (foldl (\<lambda>parts (name, vs). parts @ map (formData name) vs)
                                        [] params)\<rparr>))
          else if mimeType = ''text/plain'' then (Pass, req1)
          else (Fail (UnsupportedContentType mimeType), req1))"

text \<open>
  \<^verbatim>\<open>makeHTTPRequest\<close>, the last request handler. For a \<^verbatim>\<open>file:\<close> URL it asks the
  file system whether the file exists and reads it; otherwise it sends the request with
  the cookies of the host and path.
\<close>

definition arrayOfHeaders :: "(string \<times> header_value) list \<Rightarrow> (string \<times> string) list" where
  "arrayOfHeaders hs =
     foldl (\<lambda>headers (name, v).
              case v of
                Multiple items \<Rightarrow> headers @ map (\<lambda>item. (name, item)) items
              | Single s \<Rightarrow> headers @ [(name, s)]) [] hs"

definition makeHTTPRequest ::
  "('c, 'w) env \<Rightarrow> request \<Rightarrow> ('c, 'w) browser \<Rightarrow> request_outcome \<times> request \<times> ('c, 'w) browser" where
  "makeHTTPRequest E req b =
     (let parsed = URL_parse (URL E) (req_url req) in
      if protocol parsed = Some ''file:'' then
        (if req_method req \<noteq> ''GET''
         then (Respond (empty_response\<lparr>res_statusCode := Some 405\<rparr>), req, b)
         else case decodeURI E (string_or_null (pathname parsed)) of
           None \<Rightarrow> (Fail URIError, req, b)
         | Some decoded \<Rightarrow>
             let filename = Path_normalize E decoded in
             (case fs b filename of
                Some (Inl error) \<Rightarrow>
                  (Fail (ReadFileError error), req\<lparr>req_error := Some (ReadFileError error)\<rparr>, b)
              | Some (Inr buffer) \<Rightarrow> (Respond (empty_response\<lparr>res_body := BufferBody buffer\<rparr>), req, b)
              | None \<Rightarrow> (Respond (empty_response\<lparr>res_statusCode := Some 404\<rparr>), req, b)))
      else
        let req1 = req\<lparr>req_headers := Headers_append ''Cookie''
                       (Cookies_serialize E (cookies b) (hostname parsed) (pathname parsed))
                       (req_headers req)\<rparr>
        in case transport E req1 (world b) of
             (Inr response, w1) \<Rightarrow>
               (Respond \<lparr>res_url = Some (req_url req1),
                         res_statusCode = Some (w_statusCode response),
                         res_statusText = None,
                         res_headers = Headers_new (arrayOfHeaders (w_headers response)),
                         res_body = BufferBody (w_body response),
                         res_redirects = Some (case w_redirects response of None \<Rightarrow> 0 | Some n \<Rightarrow> n),
                         res_time = None\<rparr>,
                req1, b\<lparr>world := w1\<rparr>)
           | (Inl error, w1) \<Rightarrow> (Fail (TransportError error), req1, b\<lparr>world := w1\<rparr>))"

text \<open>The number of redirects so far, \<^verbatim>\<open>req.redirects || 0\<close>.\<close>

definition redirects_of :: "request \<Rightarrow> nat" where
  "redirects_of req = (case req_redirects req of None \<Rightarrow> 0 | Some n \<Rightarrow> n)"

text \<open>
  \<^verbatim>\<open>handleResponse\<close>: cookies and redirects. The outcome \<open>Redirect\<close> carries the
  request that the handler submits to the whole pipeline again.
\<close>

definition handleResponse ::
  "('c, 'w) env \<Rightarrow> request \<Rightarrow> response \<Rightarrow> ('c, 'w) browser \<Rightarrow> response_outcome \<times> ('c, 'w) browser" where
  "handleResponse E req res0 b =
     (let res = res0\<lparr>res_headers := Headers_new (res_headers res0)\<rparr>;
          parsed = URL_parse (URL E) (req_url req)
      in
      if protocol parsed \<noteq> Some ''http:'' \<and> protocol parsed \<noteq> Some ''https:'' then (Next res, b)
      else
        let newCookies = Headers_getAll (res_headers res) ''Set-Cookie'';
            b1 = b\<lparr>cookies := Cookies_update E newCookies (hostname parsed) (pathname parsed) (cookies b)\<rparr>;
            redirects = redirects_of req;
            statusCode = res_statusCode res;
            location = or_empty (Headers_get (res_headers res) ''Location'');
            redirectUrl =
              (if (statusCode = Some 301 \<or> statusCode = Some 307) \<and>
                  (req_method req = ''GET'' \<or> req_method req = ''HEAD'')
               then Some (resolveHref E (req_url req) location)
               else if statusCode = Some 302 \<or> statusCode = Some 303
               then Some (resolveHref E (req_url req) location)
               else None)
        in
        if truthy redirectUrl then
          (let res1 = res\<lparr>res_url := redirectUrl\<rparr>;
               redirects1 = redirects + 1
           in
           if redirects1 > maxRedirects E then (Failed (TooManyRedirects (maxRedirects E)), b1)
           else
             let redirectHeaders =
                   Headers_delete ''Content-Transfer-Encoding''
                     (Headers_delete ''Content-Length''
                        (Headers_delete ''Content-Type''
                           (Headers_set ''Referer'' (req_url req) (Headers_new (req_headers req)))));
                 redirectRequest =
                   \<lparr>req_method = ''GET'',
                    req_url = or_empty (res_url res1),
                    req_headers = redirectHeaders,
                    req_params = None,
                    req_body = NoBody,
                    req_multipart = None,
                    req_time = req_time req,
                    req_timeout = req_timeout req,
                    req_redirects = Some redirects1,
                    req_strictSSL = req_strictSSL req,
                    req_localAddress = None,
                    req_error = None\<rparr>
             in (Redirect redirectRequest, emit (EvRedirect req res1 redirectRequest) b1))
        else (Next (res\<lparr>res_redirects := Some redirects\<rparr>), b1))"

definition decompressBody :: "('c, 'w) env \<Rightarrow> request \<Rightarrow> response \<Rightarrow> response_outcome" where
  "decompressBody E req res =
     (let transferEncoding = Headers_get (res_headers res) ''Transfer-Encoding'';
          contentEncoding = Headers_get (res_headers res) ''Content-Encoding''
      in if contentEncoding = Some ''deflate'' \<or> transferEncoding = Some ''deflate'' then
           (case Zlib_inflate E (res_body res) of
              Inl error \<Rightarrow> Failed error
            | Inr buffer \<Rightarrow> Next (res\<lparr>res_body := BufferBody buffer\<rparr>))
         else if contentEncoding = Some ''gzip'' \<or> transferEncoding = Some ''gzip'' then
           (case Zlib_gunzip E (res_body res) of
              Inl error \<Rightarrow> Failed error
            | Inr buffer \<Rightarrow> Next (res\<lparr>res_body := BufferBody buffer\<rparr>))
         else Next res)"

text \<open>
  \<^verbatim>\<open>decodeBody\<close> and the string operations it uses: \<^verbatim>\<open>split(/;\s*/)\<close>,
  \<^verbatim>\<open>split(/\//, 2)\<close>, \<^verbatim>\<open>/^charset=/i\<close>, \<^verbatim>\<open>split('=')[1]\<close>, \<^verbatim>\<open>/html/\<close> and
  \<^verbatim>\<open>/\bhtml\b/\<close>. \<^verbatim>\<open>iconv.decode\<close> throws for a character set it does not know, and
  \<^verbatim>\<open>nextResponseHandler\<close> passes what a handler throws to the callback.
\<close>

definition is_space :: "char \<Rightarrow> bool" where
  "is_space c = (c \<in> {CHR '' '', CHR 0x09, CHR 0x0A, CHR 0x0B, CHR 0x0C, CHR 0x0D, CHR 0xA0})"

function split_options :: "string \<Rightarrow> string \<Rightarrow> string list" where
  "split_options acc [] = [rev acc]"
| "split_options acc (c # cs) =
     (if c = CHR '';'' then rev acc # split_options [] (dropWhile is_space cs)
      else split_options (c # acc) cs)"
  by pat_completeness auto

termination
  by (relation "measure (\<lambda>(acc, cs). length cs)")
     (auto simp: le_imp_less_Suc length_dropWhile_le)

definition type_of :: "string \<Rightarrow> string" where
  "type_of contentType = takeWhile (\<lambda>c. c \<noteq> CHR ''/'') contentType"

definition subtype_of :: "string \<Rightarrow> string option" where
  "subtype_of contentType =
     (case dropWhile (\<lambda>c. c \<noteq> CHR ''/'') contentType of
        [] \<Rightarrow> None
      | slash # rest \<Rightarrow> Some (takeWhile (\<lambda>c. c \<noteq> CHR ''/'') rest))"

definition is_charset_option :: "string \<Rightarrow> bool" where
  "is_charset_option typeOption = (toLowerCase (take 8 typeOption) = ''charset='')"

definition charset_value :: "string \<Rightarrow> string" where
  "charset_value typeOption =
     takeWhile (\<lambda>c. c \<noteq> CHR ''='') (drop 1 (dropWhile (\<lambda>c. c \<noteq> CHR ''='') typeOption))"

fun contains :: "string \<Rightarrow> string \<Rightarrow> bool" where
  "contains sub [] = (sub = [])"
| "contains sub (c # cs) = (take (length sub) (c # cs) = sub \<or> contains sub cs)"

definition is_word_char :: "char \<Rightarrow> bool" where
  "is_word_char c =
     (let n = (of_char c :: nat)
      in (48 \<le> n \<and> n \<le> 57) \<or> (65 \<le> n \<and> n \<le> 90) \<or> (97 \<le> n \<and> n \<le> 122) \<or> n = 95)"

fun contains_word :: "string \<Rightarrow> bool \<Rightarrow> string \<Rightarrow> bool" where
  "contains_word w after_word [] = False"
| "contains_word w after_word (c # cs) =
     ((\<not> after_word \<and> take (length w) (c # cs) = w \<and>
       (case drop (length w) (c # cs) of [] \<Rightarrow> True | d # ds \<Rightarrow> \<not> is_word_char d))
      \<or> contains_word w (is_word_char c) cs)"

definition decodeBody :: "('c, 'w) env \<Rightarrow> request \<Rightarrow> response \<Rightarrow> response_outcome" where
  "decodeBody E req res =
     (case res_body res of
        BufferBody buffer \<Rightarrow>
          let contentType = (if truthy (Headers_get (res_headers res) ''Content-Type'')
                             then or_empty (Headers_get (res_headers res) ''Content-Type'')
                             else ''application/unknown'');
              type = type_of contentType;
              subtype = subtype_of contentType
          in
          if type \<noteq> [] \<and> type \<noteq> ''text'' then Next res
          else
            let charset0 = (case split_options [] contentType of
                              mimeType # typeOptions \<Rightarrow>
                                if mimeType \<noteq> []
                                then (case find is_charset_option typeOptions of
                                        Some typeOption \<Rightarrow> Some (charset_value typeOption)
                                      | None \<Rightarrow> None)
                                else None
                            | [] \<Rightarrow> None);
                isHTML = (contains ''html'' (case subtype of None \<Rightarrow> ''undefined'' | Some t \<Rightarrow> t) \<or>
                          contains_word ''html'' False
                            (string_or_null (Headers_get (req_headers req) ''Accept'')));
                charset = (if \<not> truthy charset0 \<and> isHTML
                           then (case MATCH_CHARSET E buffer of
                                   Some found \<Rightarrow> Some found
                                 | None \<Rightarrow> Some ''windows-1252'')
                           else charset0)
            in if truthy charset
               then (case iconv_decode E buffer (or_empty charset) of
                       Some decoded \<Rightarrow> Next (res\<lparr>res_body := TextBody decoded\<rparr>)
                     | None \<Rightarrow> Failed (EncodingError (or_empty charset)))
               else Next res
      | _ \<Rightarrow> Next res)"

subsection \<open>Running the pipeline\<close>

text \<open>
  One request handler applied to the request: its answer, the request as the handler
  leaves it, and the browser.
\<close>

fun call_request_handler ::
  "('c, 'w) env \<Rightarrow> handler \<Rightarrow> request \<Rightarrow> ('c, 'w) browser
     \<Rightarrow> request_outcome \<times> request \<times> ('c, 'w) browser" where
  "call_request_handler E NormalizeURL req b = (Pass, normalizeURL E req, b)"
| "call_request_handler E MergeHeaders req b =
     (case mergeHeaders E req b of (req1, b1) \<Rightarrow> (Pass, req1, b1))"
| "call_request_handler E CreateBody req b =
     (case createBody E req (world b) of (outcome, req1) \<Rightarrow> (outcome, req1, b))"
| "call_request_handler E MakeHTTPRequest req b = makeHTTPRequest E req b"
| "call_request_handler E (RequestHandler f) req b = (f req, req, b)"
| "call_request_handler E h req b = (Fail AssertionError, req, b)"

fun call_response_handler ::
  "('c, 'w) env \<Rightarrow> handler \<Rightarrow> request \<Rightarrow> response \<Rightarrow> ('c, 'w) browser
     \<Rightarrow> response_outcome \<times> ('c, 'w) browser" where
  "call_response_handler E HandleResponse req res b = handleResponse E req res b"
| "call_response_handler E DecompressBody req res b = (decompressBody E req res, b)"
| "call_response_handler E DecodeBody req res b = (decodeBody E req res, b)"
| "call_response_handler E (ResponseHandler f) req res b =
     (case f req res of Inl error \<Rightarrow> (Failed error, b) | Inr newResponse \<Rightarrow> (Next newResponse, b))"
| "call_response_handler E h req res b = (Next res, b)"

definition handlersInOrder :: "handler list \<Rightarrow> handler list" where
  "handlersInOrder hs =
     (let requestHandlers = filter (\<lambda>fn. arity fn = 2) hs;
          responseHandlers = filter (\<lambda>fn. arity fn = 3) hs
      in requestHandlers @ [MakeHTTPRequest] @ responseHandlers)"

text \<open>
  \<^verbatim>\<open>nextRequestHandler\<close> and \<^verbatim>\<open>nextResponseHandler\<close>, with the callback's result as
  the value: the error or the response of the fetch. The request handlers change the
  request object they are given; \<^verbatim>\<open>nextRequestHandler\<close> also returns that object as
  the handlers leave it. Where \<^verbatim>\<open>handleResponse\<close>
  redirects, \<^verbatim>\<open>_runPipeline\<close> runs on the redirect request with all handlers, and its
  result continues with the handlers that are left. The assertion of
  \<^verbatim>\<open>nextRequestHandler\<close> holds in every run of \<^verbatim>\<open>_runPipeline\<close>, where
  \<^verbatim>\<open>makeHTTPRequest\<close> follows the request handlers and always answers with a response
  or an error; a failed assertion is the error \<open>AssertionError\<close> here.
\<close>

function nextRequestHandler ::
    "('c, 'w) env \<Rightarrow> request \<Rightarrow> handler list \<Rightarrow> ('c, 'w) browser
       \<Rightarrow> (pipeline_error + response) \<times> request \<times> ('c, 'w) browser"
  and nextResponseHandler ::
    "('c, 'w) env \<Rightarrow> request \<Rightarrow> response \<Rightarrow> handler list \<Rightarrow> ('c, 'w) browser
       \<Rightarrow> (pipeline_error + response) \<times> ('c, 'w) browser" where
  "nextRequestHandler E req [] b = (Inl AssertionError, req, b)"
| "nextRequestHandler E req (handler # handlers) b =
     (if arity handler \<noteq> 2 then (Inl AssertionError, req, b)
      else case call_request_handler E handler req b of
        (Fail error, req1, b1) \<Rightarrow> (Inl error, req1, b1)
      | (Respond res, req1, b1) \<Rightarrow>
          (case nextResponseHandler E req1
                  (res\<lparr>res_url := (if truthy (res_url res) then res_url res
                                      else Some (req_url req1))\<rparr>)
                  (filter (\<lambda>fn. arity fn = 3) (handler # handlers)) b1 of
             (outcome, b2) \<Rightarrow> (outcome, req1, b2))
      | (Pass, req1, b1) \<Rightarrow> nextRequestHandler E req1 handlers b1)"
| "nextResponseHandler E req res [] b = (Inr res, b)"
| "nextResponseHandler E req res (handler # handlers) b =
     (case call_response_handler E handler req res b of
        (Failed error, b1) \<Rightarrow> (Inl error, b1)
      | (Next newResponse, b1) \<Rightarrow> nextResponseHandler E req newResponse handlers b1
      | (Redirect redirectRequest, b1) \<Rightarrow>
          (case nextRequestHandler E redirectRequest (handlersInOrder (pipeline E)) b1 of
             (Inl error, redirectRequest1, b2) \<Rightarrow> (Inl error, b2)
           | (Inr newResponse, redirectRequest1, b2) \<Rightarrow>
               nextResponseHandler E req newResponse handlers b2))"
  by pat_completeness auto

subsection \<open>Termination of the pipeline\<close>

text \<open>
  No request handler changes the redirect counter of the request, and a redirect request
  carries a counter that is one larger and not above the maximum; so a fetch ends.
\<close>

lemma normalizeURL_redirects: "req_redirects (normalizeURL E req) = req_redirects req"
  by (simp add: normalizeURL_def Let_def split: option.splits)

lemma mergeHeaders_redirects: "req_redirects (fst (mergeHeaders E req b)) = req_redirects req"
  by (simp add: mergeHeaders_def Let_def split: prod.splits)

lemma createBody_redirects: "req_redirects (snd (createBody E req w)) = req_redirects req"
  by (simp add: createBody_def Let_def)

lemma makeHTTPRequest_redirects:
  "req_redirects (fst (snd (makeHTTPRequest E req b))) = req_redirects req"
  by (simp add: makeHTTPRequest_def Let_def split: option.splits sum.splits prod.splits)

lemma call_request_handler_redirects:
  "call_request_handler E h req b = (outcome, req1, b1) \<Longrightarrow> req_redirects req1 = req_redirects req"
proof (cases h)
  case NormalizeURL
  then show "call_request_handler E h req b = (outcome, req1, b1) \<Longrightarrow> ?thesis"
    by (auto simp: normalizeURL_redirects)
next
  case MergeHeaders
  then show "call_request_handler E h req b = (outcome, req1, b1) \<Longrightarrow> ?thesis"
    using mergeHeaders_redirects [of E req b] by (auto split: prod.splits)
next
  case CreateBody
  then show "call_request_handler E h req b = (outcome, req1, b1) \<Longrightarrow> ?thesis"
    using createBody_redirects [of E req "world b"] by (auto split: prod.splits)
next
  case MakeHTTPRequest
  then show "call_request_handler E h req b = (outcome, req1, b1) \<Longrightarrow> ?thesis"
    using makeHTTPRequest_redirects [of E req b] by auto
qed auto

lemma handleResponse_Redirect:
  assumes "handleResponse E req res b = (Redirect rr, b1)"
  shows "req_redirects rr = Some (redirects_of req + 1)"
    and "redirects_of req + 1 \<le> maxRedirects E"
    and "req_method rr = ''GET''"
  using assms
  by (auto simp: handleResponse_def Let_def split: if_splits)

lemma call_response_handler_Redirect:
  assumes "call_response_handler E h req res b = (Redirect rr, b1)"
  shows "redirects_of rr = redirects_of req + 1" and "redirects_of req + 1 \<le> maxRedirects E"
proof -
  from assms have "handleResponse E req res b = (Redirect rr, b1)"
    by (cases h) (auto simp: decompressBody_def decodeBody_def Let_def
        split: sum.splits if_splits js_body.splits option.splits)
  from handleResponse_Redirect [OF this]
  show "redirects_of rr = redirects_of req + 1" and "redirects_of req + 1 \<le> maxRedirects E"
    by (simp_all add: redirects_of_def)
qed

termination nextRequestHandler
proof (relation "inv_image (less_than <*lex*> less_than)
    (\<lambda>x. case x of
            Inl (E, req, hs, b) \<Rightarrow> (Suc (maxRedirects E) - redirects_of req, length hs)
          | Inr (E, req, res, hs, b) \<Rightarrow> (Suc (maxRedirects E) - redirects_of req, length hs))",
    goal_cases)
  case 1
  show ?case by (intro wf_inv_image wf_lex_prod wf_less_than)
next
  case (2 E req handler handlers b x y req1 b1)
  then have "call_request_handler E handler req b = (Pass, req1, b1)" by simp
  from call_request_handler_redirects [OF this]
  have "redirects_of req1 = redirects_of req" by (simp add: redirects_of_def)
  then show ?case by simp
next
  case (3 E req handler handlers b x y res req1 b1)
  then have "call_request_handler E handler req b = (Respond res, req1, b1)" by simp
  from call_request_handler_redirects [OF this]
  have r: "redirects_of req1 = redirects_of req" by (simp add: redirects_of_def)
  have "length (filter (\<lambda>fn. arity fn = 3) handlers) \<le> length handlers" by simp
  with 3(1) r show ?case by (simp add: le_imp_less_Suc)
next
  case (4 E req res handler handlers b x b1 newResponse)
  then show ?case by simp
next
  case (5 E req res handler handlers b x b1 redirectRequest)
  then have "call_response_handler E handler req res b = (Redirect redirectRequest, b1)" by simp
  from call_response_handler_Redirect [OF this]
  have "redirects_of redirectRequest = redirects_of req + 1"
    and "redirects_of req + 1 \<le> maxRedirects E" by simp_all
  then have "Suc (maxRedirects E) - redirects_of redirectRequest
             < Suc (maxRedirects E) - redirects_of req" by arith
  then show ?case by simp
next
  case (6 E req res handler handlers b x b1 redirectRequest outcome b2 newResponse)
  then show ?case by simp
qed

text \<open>The handlers every browser starts with, and \<^verbatim>\<open>addHandler\<close>.\<close>

definition Resources_pipeline :: "handler list" where
  "Resources_pipeline =
     [NormalizeURL, MergeHeaders, CreateBody, HandleResponse, DecompressBody, DecodeBody]"

definition addHandler :: "handler \<Rightarrow> ('c, 'w) env \<Rightarrow> ('c, 'w) env" where
  "addHandler h E = E\<lparr>pipeline := pipeline E @ [h]\<rparr>"

text \<open>
  \<^verbatim>\<open>_runPipeline\<close>: what the callback receives and the browser after the run, and the
  request object after the run.
\<close>

definition runPipeline ::
  "('c, 'w) env \<Rightarrow> request \<Rightarrow> ('c, 'w) browser \<Rightarrow> (pipeline_error + response) \<times> ('c, 'w) browser" where
  "runPipeline E req b =
     (case nextRequestHandler E req (handlersInOrder (pipeline E)) b of
        (outcome, req1, b1) \<Rightarrow> (outcome, b1))"

definition runPipeline_request :: "('c, 'w) env \<Rightarrow> request \<Rightarrow> ('c, 'w) browser \<Rightarrow> request" where
  "runPipeline_request E req b =
     (case nextRequestHandler E req (handlersInOrder (pipeline E)) b of
        (outcome, req1, b1) \<Rightarrow> req1)"

subsection \<open>The method request\<close>

record options =
  opt_headers :: "(string \<times> string) list"
  opt_params :: "params option"
  opt_body :: js_body
  opt_timeout :: "nat option"
  opt_target :: "string option"

text \<open>
  The first half of \<^verbatim>\<open>request\<close>: it builds the request, pushes the resource to the
  history and emits the event, before the pipeline runs.
\<close>

definition request_begin ::
  "('c, 'w) env \<Rightarrow> string \<Rightarrow> string \<Rightarrow> options \<Rightarrow> ('c, 'w) browser \<Rightarrow> request \<times> ('c, 'w) browser" where
  "request_begin E method url opts b =
     (let req = \<lparr>req_method = toUpperCase method,
                 req_url = url,
                 req_headers = Headers_new (opt_headers opts),
                 req_params = opt_params opts,
                 req_body = opt_body opts,
                 req_multipart = None,
                 req_time = Date_now E (world b),
                 req_timeout = (case opt_timeout opts of None \<Rightarrow> 0 | Some t \<Rightarrow> t),
                 req_redirects = None,
                 req_strictSSL = strictSSL E,
                 req_localAddress = (if truthy (localAddress E) then localAddress E else None),
                 req_error = None\<rparr>;
          resource = \<lparr>rsrc_request = req, rsrc_target = opt_target opts,
                      rsrc_error = None, rsrc_response = None\<rparr>;
          b1 = b\<lparr>resources := resources b @ [resource]\<rparr>
      in (req, emit (EvRequest req) b1))"

text \<open>
  The callback that \<^verbatim>\<open>request\<close> passes to the pipeline, for the resource at
  position \<open>i\<close> of the history. The resource holds the request object itself, not a
  copy: when the callback runs, its request is the object \<open>req\<close> as the request
  handlers have left it.
\<close>

definition request_callback ::
  "('c, 'w) env \<Rightarrow> nat \<Rightarrow> request \<Rightarrow> pipeline_error + response \<Rightarrow> ('c, 'w) browser
     \<Rightarrow> (pipeline_error + response) \<times> ('c, 'w) browser" where
  "request_callback E i req outcome b =
     (case outcome of
        Inl error \<Rightarrow>
          (Inl error,
           b\<lparr>resources := (resources b)[i := (resources b ! i)\<lparr>rsrc_request := req,
                                                                rsrc_error := Some error\<rparr>]\<rparr>)
      | Inr res \<Rightarrow>
          let statusCode = (case res_statusCode res of
                              None \<Rightarrow> 200 | Some c \<Rightarrow> if c = 0 then 200 else c);
              res1 = res\<lparr>res_statusCode := Some statusCode,
                         res_statusText := Some (if truthy (HTTP_STATUS_CODES E statusCode)
                                                 then or_empty (HTTP_STATUS_CODES E statusCode)
                                                 else ''Unknown''),
                         res_redirects := Some (case res_redirects res of None \<Rightarrow> 0 | Some n \<Rightarrow> n),
                         res_time := Some (Date_now E (world b))\<rparr>;
              b1 = b\<lparr>resources := (resources b)[i := (resources b ! i)\<lparr>rsrc_request := req,
                                                                     rsrc_response := Some res1\<rparr>]\<rparr>
          in (Inr res1, emit (EvResponse req res1) b1))"

definition request ::
  "('c, 'w) env \<Rightarrow> string \<Rightarrow> string \<Rightarrow> options \<Rightarrow> ('c, 'w) browser
     \<Rightarrow> (pipeline_error + response) \<times> ('c, 'w) browser" where
  "request E method url opts b =
     (case request_begin E method url opts b of
        (req, b1) \<Rightarrow>
          (case runPipeline E req b1 of
             (outcome, b2) \<Rightarrow>
               request_callback E (length (resources b)) (runPipeline_request E req b1) outcome b2))"

definition no_options :: options where
  "no_options = \<lparr>opt_headers = [], opt_params = None, opt_body = NoBody, opt_timeout = None,
                  opt_target = None\<rparr>"

definition Resources_get :: "('c, 'w) env \<Rightarrow> string \<Rightarrow> options \<Rightarrow> ('c, 'w) browser
     \<Rightarrow> (pipeline_error + response) \<times> ('c, 'w) browser" where
  "Resources_get E url opts b = request E ''get'' url opts b"

definition Resources_post :: "('c, 'w) env \<Rightarrow> string \<Rightarrow> options \<Rightarrow> ('c, 'w) browser
     \<Rightarrow> (pipeline_error + response) \<times> ('c, 'w) browser" where
  "Resources_post E url opts b = request E ''post'' url opts b"

subsection \<open>An example browser and server\<close>

text \<open>
  The example URL library knows absolute \<open>http://host/path\<close> and \<open>file://path\<close> URLs
  and resolves a path against the origin of an \<open>http\<close> URL.
\<close>

definition example_parse :: "string \<Rightarrow> url_object" where
  "example_parse u =
     (if take 7 u = ''http://'' then
        \<lparr>protocol = Some ''http:'', auth = None,
         hostname = Some (takeWhile (\<lambda>c. c \<noteq> CHR ''/'') (drop 7 u)), port = None,
         host = Some (takeWhile (\<lambda>c. c \<noteq> CHR ''/'') (drop 7 u)),
         pathname = Some (dropWhile (\<lambda>c. c \<noteq> CHR ''/'') (drop 7 u)), search = None, hash = None\<rparr>
      else if take 7 u = ''file://'' then
        \<lparr>protocol = Some ''file:'', auth = None, hostname = Some [], port = None, host = Some [],
         pathname = Some (drop 7 u), search = None, hash = None\<rparr>
      else
        \<lparr>protocol = None, auth = None, hostname = None, port = None, host = None,
         pathname = Some u, search = None, hash = None\<rparr>)"

definition example_resolve :: "string \<Rightarrow> string \<Rightarrow> string" where
  "example_resolve base href =
     (if href = [] then base
      else if take 7 href = ''http://'' \<or> take 7 href = ''file://'' then href
      else ''http://'' @ takeWhile (\<lambda>c. c \<noteq> CHR ''/'') (drop 7 base) @ href)"

definition example_URL :: url_module where
  "example_URL =
     \<lparr>URL_resolve = example_resolve, URL_parse = example_parse, URL_format_object = test_format\<rparr>"

text \<open>
  The example server redirects \<open>/a\<close> to \<open>/b\<close> with 302, \<open>/old\<close> to \<open>/b\<close> with 301,
  \<open>/hop1\<close> to \<open>/hop2\<close> to \<open>/hop3\<close> to \<open>/b\<close> with 302, and \<open>/local\<close> to a file with
  302; every other path is answered with 200. The world is a clock that the transport
  advances.
\<close>

definition redirect_to :: "nat \<Rightarrow> string \<Rightarrow> wire_response" where
  "redirect_to code target =
     \<lparr>w_statusCode = code, w_headers = [(''location'', Single target)], w_body = [],
      w_redirects = None\<rparr>"

definition example_server :: "string option \<Rightarrow> wire_response" where
  "example_server path =
     (if path = Some ''/a'' then redirect_to 302 ''/b''
      else if path = Some ''/old'' then redirect_to 301 ''/b''
      else if path = Some ''/hop1'' then redirect_to 302 ''/hop2''
      else if path = Some ''/hop2'' then redirect_to 302 ''/hop3''
      else if path = Some ''/hop3'' then redirect_to 302 ''/b''
      else if path = Some ''/local'' then redirect_to 302 ''file:///etc/motd''
      else \<lparr>w_statusCode = 200, w_headers = [(''content-type'', Single ''application/octet-stream'')],
            w_body = ''ok'', w_redirects = None\<rparr>)"

text \<open>
  The example \<^verbatim>\<open>decodeURI\<close> decodes the escapes of ASCII characters other than the
  reserved ones and, as \<^verbatim>\<open>decodeURI\<close> does, rejects a \<open>%\<close> that two hexadecimal
  digits do not follow. It knows no escapes of other characters; the example file names
  do not use them.
\<close>

definition hex_value :: "char \<Rightarrow> nat option" where
  "hex_value c =
     (let n = (of_char c :: nat)
      in if 48 \<le> n \<and> n \<le> 57 then Some (n - 48)
         else if 65 \<le> n \<and> n \<le> 70 then Some (n - 55)
         else if 97 \<le> n \<and> n \<le> 102 then Some (n - 87)
         else None)"

fun example_decodeURI :: "string \<Rightarrow> string option" where
  "example_decodeURI [] = Some []"
| "example_decodeURI (c # cs) =
     (if c \<noteq> CHR ''%'' then map_option ((#) c) (example_decodeURI cs)
      else case cs of
        h1 # h2 # rest \<Rightarrow>
          (case (hex_value h1, hex_value h2) of
             (Some hi, Some lo) \<Rightarrow>
               if 16 * hi + lo < 128
               then map_option
                      (\<lambda>decoded. (if char_of (16 * hi + lo) \<in> set '';/?:@&=+$,#''
                                  then [c, h1, h2] else [char_of (16 * hi + lo)]) @ decoded)
                      (example_decodeURI rest)
               else None
           | _ \<Rightarrow> None)
      | _ \<Rightarrow> None)"

definition example_env :: "nat \<Rightarrow> (string list, nat) env" where
  "example_env limit =
     \<lparr>URL = example_URL,
      maxRedirects = limit,
      browser_headers = [],
      userAgent = ''Zombie'',
      site = None,
      strictSSL = False,
      localAddress = None,
      document = None,
      pipeline = Resources_pipeline,
      DOM_resolve = example_resolve,
      resolveHref = example_resolve,
      URL_merge_query = (\<lambda>url ps. url),
      QS_stringify = (\<lambda>ps. []),
      base64 = (\<lambda>s. s),
      authenticate = (\<lambda>host. (None, None)),
      Cookies_serialize = (\<lambda>jar host path. []),
      Cookies_update = (\<lambda>values host path jar. jar @ values),
      transport = (\<lambda>req clock. (Inr (example_server (pathname (example_parse (req_url req)))), Suc clock)),
      decodeURI = example_decodeURI,
      Path_normalize = (\<lambda>path. path),
      Zlib_inflate = (\<lambda>body. Inl (ZlibError ''incorrect header check'')),
      Zlib_gunzip = (\<lambda>body. Inl (ZlibError ''incorrect header check'')),
      iconv_decode = (\<lambda>buffer charset. Some buffer),
      MATCH_CHARSET = (\<lambda>text. None),
      HTTP_STATUS_CODES = (\<lambda>code. if code = 200 then Some ''OK'' else None),
      Date_now = (\<lambda>clock. clock),
      multipart_boundary = (\<lambda>clock. ''boundary'')\<rparr>"

definition example_browser :: "(string list, nat) browser" where
  "example_browser =
     \<lparr>cookies = [], world = 0,
      fs = (\<lambda>name. if name = ''/etc/motd'' then Some (Inr ''hello'')
                  else if name = ''/etc/shadow'' then Some (Inl ''EACCES'')
                  else if name = ''/tmp/100%'' then Some (Inr ''full'') else None),
      events = [], resources = []\<rparr>"

definition is_redirect_event :: "event \<Rightarrow> bool" where
  "is_redirect_event ev = (case ev of EvRedirect req res redirectRequest \<Rightarrow> True | _ \<Rightarrow> False)"

definition fetch_summary ::
  "(pipeline_error + response) \<times> (string list, nat) browser
     \<Rightarrow> (pipeline_error + string option \<times> nat option \<times> nat option) \<times> nat \<times> nat" where
  "fetch_summary result =
     (case result of
        (outcome, b) \<Rightarrow>
          (map_sum (\<lambda>e. e) (\<lambda>res. (res_url res, res_statusCode res, res_redirects res)) outcome,
           length (filter is_redirect_event (events b)),
           length (resources b)))"

subsection \<open>Notions for the properties\<close>

text \<open>
  The condition under which \<^verbatim>\<open>handleResponse\<close> computes a redirect URL: status 301 or
  307 for a GET or HEAD request, or status 302 or 303.
\<close>

definition redirect_eligible :: "request \<Rightarrow> response \<Rightarrow> bool" where
  "redirect_eligible req res =
     (((res_statusCode res = Some 301 \<or> res_statusCode res = Some 307) \<and>
       (req_method req = ''GET'' \<or> req_method req = ''HEAD'')) \<or>
      res_statusCode res = Some 302 \<or> res_statusCode res = Some 303)"

definition is_http :: "('c, 'w) env \<Rightarrow> string \<Rightarrow> bool" where
  "is_http E url =
     (protocol (URL_parse (URL E) url) = Some ''http:'' \<or>
      protocol (URL_parse (URL E) url) = Some ''https:'')"

text \<open>The URL that the \<open>Location\<close> header of a response resolves to.\<close>

definition redirect_target :: "('c, 'w) env \<Rightarrow> request \<Rightarrow> response \<Rightarrow> string" where
  "redirect_target E req res =
     resolveHref E (req_url req) (or_empty (Headers_get (Headers_new (res_headers res)) ''Location''))"

definition followed :: "response_outcome \<Rightarrow> request option" where
  "followed outcome = (case outcome of Redirect redirectRequest \<Rightarrow> Some redirectRequest | _ \<Rightarrow> None)"

definition terminal :: "response_outcome \<Rightarrow> bool" where
  "terminal outcome = (case outcome of Next newResponse \<Rightarrow> True | _ \<Rightarrow> False)"

definition example_request :: "string \<Rightarrow> string \<Rightarrow> request" where
  "example_request method url =
     fst (request_begin (example_env 5) method url no_options example_browser)"

definition example_response :: "nat \<Rightarrow> (string \<times> string) list \<Rightarrow> response" where
  "example_response code headers =
     empty_response\<lparr>res_statusCode := Some code, res_headers := headers\<rparr>"

text \<open>The follow-up requests of the redirect events in a list of events, in order.\<close>

fun redirect_requests :: "event list \<Rightarrow> request list" where
  "redirect_requests [] = []"
| "redirect_requests (EvRedirect req res redirectRequest # evs) = redirectRequest # redirect_requests evs"
| "redirect_requests (ev # evs) = redirect_requests evs"

definition new_events_of :: "('c, 'w) browser \<Rightarrow> ('c, 'w) browser \<Rightarrow> event list" where
  "new_events_of b b' = drop (length (events b)) (events b')"


section \<open>Properties of the resource pipeline\<close>

lemma call_request_handler_frame:
  "call_request_handler E h req b = (outcome, req1, b1) \<Longrightarrow>
     resources b1 = resources b \<and> fs b1 = fs b"
proof (cases h)
  case MergeHeaders
  then show "call_request_handler E h req b = (outcome, req1, b1) \<Longrightarrow> ?thesis"
    by (auto simp: mergeHeaders_def emit_def Let_def split: prod.splits if_splits)
next
  case MakeHTTPRequest
  then show "call_request_handler E h req b = (outcome, req1, b1) \<Longrightarrow> ?thesis"
    by (auto simp: makeHTTPRequest_def Let_def split: prod.splits if_splits option.splits sum.splits)
qed (auto split: prod.splits)

lemma call_response_handler_frame:
  "call_response_handler E h req res b = (outcome, b1) \<Longrightarrow>
     resources b1 = resources b \<and> fs b1 = fs b"
proof (cases h)
  case HandleResponse
  then show "call_response_handler E h req res b = (outcome, b1) \<Longrightarrow> ?thesis"
    by (auto simp: handleResponse_def emit_def Let_def split: if_splits)
qed (auto split: sum.splits)

lemma pipeline_frame:
  "resources (snd (snd (nextRequestHandler E req hs b))) = resources b \<and>
   fs (snd (snd (nextRequestHandler E req hs b))) = fs b"
  "resources (snd (nextResponseHandler E req res hs b)) = resources b \<and>
   fs (snd (nextResponseHandler E req res hs b)) = fs b"
proof (induction E req hs b and E req res hs b rule: nextRequestHandler_nextResponseHandler.induct)
  case (1 E req b)
  show ?case by simp
next
  case (2 E req handler handlers b)
  show ?case
  proof (cases "arity handler \<noteq> 2")
    case True
    then show ?thesis by simp
  next
    case False
    obtain outcome req1 b1 where c: "call_request_handler E handler req b = (outcome, req1, b1)"
      by (cases "call_request_handler E handler req b")
    note f = call_request_handler_frame [OF c]
    show ?thesis
    proof (cases outcome)
      case Pass
      with 2(1) [OF False c [symmetric] _ refl] False c f show ?thesis by simp
    next
      case (Respond res)
      let ?res = "res\<lparr>res_url := (if truthy (res_url res) then res_url res
                                   else Some (req_url req1))\<rparr>"
      obtain out2 b2 where n: "nextResponseHandler E req1 ?res
          (filter (\<lambda>fn. arity fn = 3) (handler # handlers)) b1 = (out2, b2)"
        by (cases "nextResponseHandler E req1 ?res
          (filter (\<lambda>fn. arity fn = 3) (handler # handlers)) b1")
      from Respond 2(2) [OF False c [symmetric] _ refl] n f
      have "resources b2 = resources b \<and> fs b2 = fs b" by simp
      with False c Respond n show ?thesis by simp
    next
      case (Fail e)
      with False c f show ?thesis by simp
    qed
  qed
next
  case (3 E req res b)
  show ?case by simp
next
  case (4 E req res handler handlers b)
  obtain outcome b1 where c: "call_response_handler E handler req res b = (outcome, b1)"
    by (cases "call_response_handler E handler req res b")
  note f = call_response_handler_frame [OF c]
  show ?case
  proof (cases outcome)
    case (Next newResponse)
    with 4(1) [OF c [symmetric]] c f show ?thesis by simp
  next
    case (Failed e)
    with c f show ?thesis by simp
  next
    case (Redirect rr)
    obtain out2 rr2 b2
      where r: "nextRequestHandler E rr (handlersInOrder (pipeline E)) b1 = (out2, rr2, b2)"
      by (cases "nextRequestHandler E rr (handlersInOrder (pipeline E)) b1")
    from 4(2) [OF c [symmetric] Redirect] r f
    have f2: "resources b2 = resources b \<and> fs b2 = fs b" by simp
    show ?thesis
    proof (cases out2)
      case (Inl e)
      with c Redirect r f2 show ?thesis by simp
    next
      case (Inr newResponse)
      with 4(3) [OF c [symmetric] Redirect r [symmetric] Inr refl] c Redirect r f2
      show ?thesis by simp
    qed
  qed
qed

lemma nextRequestHandler_runPipeline:
  "nextRequestHandler E req (handlersInOrder (pipeline E)) b
     = (fst (runPipeline E req b), runPipeline_request E req b, snd (runPipeline E req b))"
  by (simp add: runPipeline_def runPipeline_request_def split: prod.splits)

lemma handleResponse_not_http:
  "\<not> is_http E (req_url req) \<Longrightarrow>
   handleResponse E req res b = (Next (res\<lparr>res_headers := Headers_new (res_headers res)\<rparr>), b)"
  by (simp add: handleResponse_def is_http_def Let_def)

lemma handleResponse_terminal:
  assumes "is_http E (req_url req)"
      and "\<not> redirect_eligible req res \<or> redirect_target E req res = []"
  shows "fst (handleResponse E req res b)
           = Next (res\<lparr>res_headers := Headers_new (res_headers res),
                       res_redirects := Some (redirects_of req)\<rparr>)"
    and "events (snd (handleResponse E req res b)) = events b"
  using assms
  by (auto simp: handleResponse_def is_http_def redirect_eligible_def redirect_target_def
      Let_def truthy_def)

lemma handleResponse_too_many:
  assumes "is_http E (req_url req)" and "redirect_eligible req res"
      and "redirect_target E req res \<noteq> []" and "redirects_of req + 1 > maxRedirects E"
  shows "fst (handleResponse E req res b) = Failed (TooManyRedirects (maxRedirects E))"
  using assms
  by (auto simp: handleResponse_def is_http_def redirect_eligible_def redirect_target_def
      Let_def truthy_def)

lemma handleResponse_follow:
  assumes "is_http E (req_url req)" and "redirect_eligible req res"
      and "redirect_target E req res \<noteq> []" and "redirects_of req + 1 \<le> maxRedirects E"
  shows "\<exists>rr. fst (handleResponse E req res b) = Redirect rr \<and>
           req_method rr = ''GET'' \<and> req_url rr = redirect_target E req res \<and>
           req_redirects rr = Some (redirects_of req + 1) \<and>
           (\<exists>res1. events (snd (handleResponse E req res b)) = events b @ [EvRedirect req res1 rr])"
  using assms
  by (auto simp: handleResponse_def is_http_def redirect_eligible_def redirect_target_def
      Let_def truthy_def or_empty_def emit_def)

lemma handleResponse_Redirect_eligible:
  assumes "handleResponse E req res b = (Redirect rr, b1)"
  shows "is_http E (req_url req)" and "redirect_eligible req res"
    and "req_url rr = redirect_target E req res" and "redirect_target E req res \<noteq> []"
  using assms
  by (auto simp: handleResponse_def is_http_def redirect_eligible_def redirect_target_def
      Let_def truthy_def or_empty_def split: if_splits)

lemma redirect_requests_append:
  "redirect_requests (xs @ ys) = redirect_requests xs @ redirect_requests ys"
  by (induction xs rule: redirect_requests.induct) simp_all

lemma createBody_outcome: "fst (createBody E req w) \<noteq> Respond res"
  by (simp add: createBody_def Let_def)

lemma createBody_url: "req_url (snd (createBody E req w)) = req_url req"
  by (simp add: createBody_def Let_def)

lemma mergeHeaders_url: "req_url (fst (mergeHeaders E req b)) = req_url req"
  by (simp add: mergeHeaders_def Let_def split: prod.splits)

lemma mergeHeaders_events:
  "\<exists>evs. events (snd (mergeHeaders E req b)) = events b @ evs \<and> redirect_requests evs = []"
  by (auto simp: mergeHeaders_def Let_def emit_def split: prod.splits)

lemma makeHTTPRequest_outcome: "fst (makeHTTPRequest E req b) \<noteq> Pass"
  by (simp add: makeHTTPRequest_def Let_def split: option.splits sum.splits prod.splits)

lemma makeHTTPRequest_url: "req_url (fst (snd (makeHTTPRequest E req b))) = req_url req"
  by (simp add: makeHTTPRequest_def Let_def split: option.splits sum.splits prod.splits)

lemma makeHTTPRequest_events: "events (snd (snd (makeHTTPRequest E req b))) = events b"
  by (simp add: makeHTTPRequest_def Let_def split: option.splits sum.splits prod.splits)

lemma makeHTTPRequest_res_url:
  "fst (makeHTTPRequest E req b) = Respond res \<Longrightarrow>
     res_url res = None \<or> res_url res = Some (req_url req)"
  by (auto simp: makeHTTPRequest_def Let_def empty_response_def
      split: option.splits sum.splits prod.splits if_splits)

lemma handlersInOrder_default:
  "handlersInOrder Resources_pipeline
     = [NormalizeURL, MergeHeaders, CreateBody, MakeHTTPRequest,
        HandleResponse, DecompressBody, DecodeBody]"
  by (simp add: handlersInOrder_def Resources_pipeline_def)

lemma request_stage:
  assumes d: "pipeline E = Resources_pipeline"
      and r: "runPipeline E req b = (Inr res', b')"
  obtains req1 res b1 evs where
    "runPipeline E req b
       = nextResponseHandler E req1 res [HandleResponse, DecompressBody, DecodeBody] b1"
    "req_url req1 = req_url (normalizeURL E req)"
    "req_redirects req1 = req_redirects req"
    "res_url res = Some (req_url req1)"
    "events b1 = events b @ evs" "redirect_requests evs = []"
proof -
  define reqN where "reqN = normalizeURL E req"
  obtain req2 b2 where m: "mergeHeaders E reqN b = (req2, b2)" by (cases "mergeHeaders E reqN b")
  obtain o3 req3 where c: "createBody E req2 (world b2) = (o3, req3)"
    by (cases "createBody E req2 (world b2)")
  obtain o4 req4 b4 where t: "makeHTTPRequest E req3 b2 = (o4, req4, b4)"
    by (cases "makeHTTPRequest E req3 b2")
  from mergeHeaders_events [of E reqN b] m obtain evs
    where e2: "events b2 = events b @ evs" and nr: "redirect_requests evs = []" by auto
  from makeHTTPRequest_events [of E req3 b2] t have e4: "events b4 = events b2" by simp
  have u2: "req_url req2 = req_url reqN" using mergeHeaders_url [of E reqN b] m by simp
  have u3: "req_url req3 = req_url req2" using createBody_url [of E req2 "world b2"] c by simp
  have u4: "req_url req4 = req_url req3" using makeHTTPRequest_url [of E req3 b2] t by simp
  have r2: "req_redirects req2 = req_redirects reqN"
    using mergeHeaders_redirects [of E reqN b] m by simp
  have r3: "req_redirects req3 = req_redirects req2"
    using createBody_redirects [of E req2 "world b2"] c by simp
  have r4: "req_redirects req4 = req_redirects req3"
    using makeHTTPRequest_redirects [of E req3 b2] t by simp
  have rN: "req_redirects reqN = req_redirects req" by (simp add: reqN_def normalizeURL_redirects)
  have o3': "o3 = Pass \<or> (\<exists>e. o3 = Fail e)"
    using createBody_outcome [of E req2 "world b2"] c by (cases o3) auto
  have o4': "(\<exists>res. o4 = Respond res) \<or> (\<exists>e. o4 = Fail e)"
    using makeHTTPRequest_outcome [of E req3 b2] t by (cases o4) auto
  have unfold: "runPipeline E req b =
      (case o3 of
         Fail e \<Rightarrow> (Inl e, b2)
       | Respond res \<Rightarrow> (Inl AssertionError, b2)
       | Pass \<Rightarrow>
           (case o4 of
              Fail e \<Rightarrow> (Inl e, b4)
            | Pass \<Rightarrow> (Inl AssertionError, b4)
            | Respond res \<Rightarrow>
                nextResponseHandler E req4
                  (res\<lparr>res_url := (if truthy (res_url res) then res_url res else Some (req_url req4))\<rparr>)
                  [HandleResponse, DecompressBody, DecodeBody] b4))"
    using o3' o4' m c t
    by (auto simp: runPipeline_def d handlersInOrder_default reqN_def [symmetric]
        split: prod.splits)
  from r unfold o3' o4' obtain res where o3: "o3 = Pass" and o4: "o4 = Respond res"
    by auto
  let ?res = "res\<lparr>res_url := (if truthy (res_url res) then res_url res else Some (req_url req4))\<rparr>"
  from makeHTTPRequest_res_url [of E req3 b2 res] t o4 u4
  have "res_url res = None \<or> res_url res = Some (req_url req4)" by simp
  then have ru: "res_url ?res = Some (req_url req4)" by (auto simp: truthy_def)
  show ?thesis
  proof (rule that [of req4 ?res b4 evs])
    show "runPipeline E req b
       = nextResponseHandler E req4 ?res [HandleResponse, DecompressBody, DecodeBody] b4"
      using unfold o3 o4 by simp
    show "req_url req4 = req_url (normalizeURL E req)" using u2 u3 u4 by (simp add: reqN_def)
    show "req_redirects req4 = req_redirects req" using r2 r3 r4 rN by simp
    show "res_url ?res = Some (req_url req4)" by (rule ru)
    show "events b4 = events b @ evs" using e2 e4 by simp
    show "redirect_requests evs = []" by (rule nr)
  qed
qed

lemma post_stage:
  assumes "nextResponseHandler E req res [DecompressBody, DecodeBody] b = (Inr res', b')"
  shows "res_url res' = res_url res" and "res_redirects res' = res_redirects res" and "b' = b"
  using assms
  by (auto simp: decompressBody_def decodeBody_def Let_def
      split: if_splits sum.splits js_body.splits option.splits)

lemma runPipeline_redirects:
  assumes d: "pipeline E = Resources_pipeline"
  shows "runPipeline E req b = (Inr res', b') \<Longrightarrow>
     \<exists>evs. events b' = events b @ evs \<and>
       res_url res' = Some (req_url (normalizeURL E (last (req # redirect_requests evs)))) \<and>
       (is_http E (req_url (normalizeURL E (last (req # redirect_requests evs)))) \<longrightarrow>
          res_redirects res' = Some (redirects_of req + length (redirect_requests evs)))"
proof (induction "Suc (maxRedirects E) - redirects_of req" arbitrary: req b res' b' rule: less_induct)
  case less
  from request_stage [OF d less.prems] obtain req1 res b1 evs where
    s: "runPipeline E req b
          = nextResponseHandler E req1 res [HandleResponse, DecompressBody, DecodeBody] b1"
    and u1: "req_url req1 = req_url (normalizeURL E req)"
    and r1: "req_redirects req1 = req_redirects req"
    and ru: "res_url res = Some (req_url req1)"
    and e1: "events b1 = events b @ evs" and nr: "redirect_requests evs = []"
    by blast
  have ro: "redirects_of req1 = redirects_of req" using r1 by (simp add: redirects_of_def)
  obtain outcome b2 where h: "handleResponse E req1 res b1 = (outcome, b2)"
    by (cases "handleResponse E req1 res b1")
  show ?case
  proof (cases outcome)
    case (Failed e)
    with s h less.prems show ?thesis by simp
  next
    case (Next r)
    with s h less.prems
    have p: "nextResponseHandler E req1 r [DecompressBody, DecodeBody] b2 = (Inr res', b')"
      by simp
    note ps = post_stage [OF p]
    have e2: "events b2 = events b1"
    proof (cases "is_http E (req_url req1)")
      case True
      with h Next handleResponse_Redirect_eligible [of E req1 res b1]
      have "\<not> redirect_eligible req1 res \<or> redirect_target E req1 res = []"
        using handleResponse_follow [of E req1 res b1] handleResponse_too_many [of E req1 res b1]
        by (cases "redirects_of req1 + 1 \<le> maxRedirects E") auto
      from handleResponse_terminal(2) [OF True this, of b1] h show ?thesis by simp
    next
      case False
      from handleResponse_not_http [OF False, of res b1] h show ?thesis by simp
    qed
    have url: "res_url r = Some (req_url req1)"
    proof (cases "is_http E (req_url req1)")
      case True
      with h Next
      have "\<not> redirect_eligible req1 res \<or> redirect_target E req1 res = []"
        using handleResponse_follow [of E req1 res b1] handleResponse_too_many [of E req1 res b1]
        by (cases "redirects_of req1 + 1 \<le> maxRedirects E") auto
      from handleResponse_terminal(1) [OF True this, of b1] h Next ru show ?thesis by auto
    next
      case False
      from handleResponse_not_http [OF False, of res b1] h Next ru show ?thesis by auto
    qed
    have red: "res_redirects r = Some (redirects_of req1)" if "is_http E (req_url req1)"
    proof -
      from that h Next
      have "\<not> redirect_eligible req1 res \<or> redirect_target E req1 res = []"
        using handleResponse_follow [of E req1 res b1] handleResponse_too_many [of E req1 res b1]
        by (cases "redirects_of req1 + 1 \<le> maxRedirects E") auto
      from handleResponse_terminal(1) [OF that this, of b1] h Next show ?thesis by auto
    qed
    show ?thesis
    proof (intro exI conjI impI)
      show "events b' = events b @ evs" using ps(3) e2 e1 by simp
      show "res_url res' = Some (req_url (normalizeURL E (last (req # redirect_requests evs))))"
        using ps(1) url u1 nr by simp
      assume "is_http E (req_url (normalizeURL E (last (req # redirect_requests evs))))"
      then have "is_http E (req_url req1)" using nr u1 by simp
      from red [OF this] ps(2) ro nr
      show "res_redirects res' = Some (redirects_of req + length (redirect_requests evs))"
        by simp
    qed
  next
    case (Redirect rr)
    with h have hr: "handleResponse E req1 res b1 = (Redirect rr, b2)" by simp
    note el = handleResponse_Redirect_eligible [OF hr]
    note rd = handleResponse_Redirect [OF hr]
    from handleResponse_follow [OF el(1,2,4) rd(2), of b1] hr
    obtain res1 where e2: "events b2 = events b1 @ [EvRedirect req1 res1 rr]" by auto
    obtain out3 b3 where i: "runPipeline E rr b2 = (out3, b3)" by (cases "runPipeline E rr b2")
    from s hr i less.prems obtain r where o3: "out3 = Inr r"
      and p: "nextResponseHandler E req1 r [DecompressBody, DecodeBody] b3 = (Inr res', b')"
      by (cases out3) (auto simp: nextRequestHandler_runPipeline)
    note ps = post_stage [OF p]
    have rro: "redirects_of rr = redirects_of req + 1" using rd(1) ro by (simp add: redirects_of_def)
    have "Suc (maxRedirects E) - redirects_of rr < Suc (maxRedirects E) - redirects_of req"
      using rro rd(2) ro by arith
    from less.hyps [OF this, of b2 r b3] i o3 obtain evs' where
      e3: "events b3 = events b2 @ evs'"
      and u3: "res_url r = Some (req_url (normalizeURL E (last (rr # redirect_requests evs'))))"
      and r3: "is_http E (req_url (normalizeURL E (last (rr # redirect_requests evs')))) \<longrightarrow>
                 res_redirects r = Some (redirects_of rr + length (redirect_requests evs'))"
      by auto
    let ?evs = "evs @ [EvRedirect req1 res1 rr] @ evs'"
    have rq: "redirect_requests ?evs = rr # redirect_requests evs'"
      by (simp add: redirect_requests_append nr)
    show ?thesis
    proof (intro exI [of _ ?evs] conjI impI)
      show "events b' = events b @ ?evs" using ps(3) e3 e2 e1 by simp
      show "res_url res' = Some (req_url (normalizeURL E (last (req # redirect_requests ?evs))))"
        using ps(1) u3 by (simp only: rq) simp
      assume "is_http E (req_url (normalizeURL E (last (req # redirect_requests ?evs))))"
      then have "is_http E (req_url (normalizeURL E (last (rr # redirect_requests evs'))))"
        by (simp only: rq) simp
      with r3 ps(2) rro
      show "res_redirects res' = Some (redirects_of req + length (redirect_requests ?evs))"
        by (simp only: rq) simp
    qed
  qed
qed

lemma request_begin_resources:
  "resources (snd (request_begin E method url opts b))
     = resources b @ [\<lparr>rsrc_request = fst (request_begin E method url opts b),
                        rsrc_target = opt_target opts, rsrc_error = None, rsrc_response = None\<rparr>]"
  by (simp add: request_begin_def Let_def emit_def)

lemma request_begin_events:
  "events (snd (request_begin E method url opts b))
     = events b @ [EvRequest (fst (request_begin E method url opts b))]"
  by (simp add: request_begin_def Let_def emit_def)

lemma request_begin_redirects:
  "redirects_of (fst (request_begin E method url opts b)) = 0"
  by (simp add: request_begin_def Let_def redirects_of_def)

lemma runPipeline_resources: "resources (snd (runPipeline E req b)) = resources b"
  using pipeline_frame(1) [of E req "handlersInOrder (pipeline E)" b]
  by (simp add: nextRequestHandler_runPipeline)

lemma request_resources:
  "resources (snd (request E method url opts b))
     = resources b @ [\<lparr>rsrc_request = runPipeline_request E (fst (request_begin E method url opts b))
                                         (snd (request_begin E method url opts b)),
          rsrc_target = opt_target opts,
          rsrc_error = (case fst (request E method url opts b) of
                          Inl error \<Rightarrow> Some error | Inr res \<Rightarrow> None),
          rsrc_response = (case fst (request E method url opts b) of
                             Inl error \<Rightarrow> None | Inr res \<Rightarrow> Some res)\<rparr>]"
proof -
  obtain req b1 where g: "request_begin E method url opts b = (req, b1)"
    by (cases "request_begin E method url opts b")
  obtain outcome b2 where p: "runPipeline E req b1 = (outcome, b2)"
    by (cases "runPipeline E req b1")
  from request_begin_resources [of E "method" url opts b] g
  have r1: "resources b1 = resources b @ [\<lparr>rsrc_request = req, rsrc_target = opt_target opts,
              rsrc_error = None, rsrc_response = None\<rparr>]" by simp
  from runPipeline_resources [of E req b1] p have r2: "resources b2 = resources b1" by simp
  show ?thesis
    by (cases outcome)
       (simp_all add: request_def g p request_callback_def r1 r2 Let_def emit_def)
qed

lemma request_redirects:
  assumes d: "pipeline E = Resources_pipeline"
      and r: "fst (request E method url opts b) = Inr res"
  shows "res_url res = Some (req_url (normalizeURL E
           (last (fst (request_begin E method url opts b) #
                  redirect_requests (new_events_of b (snd (request E method url opts b)))))))"
    and "is_http E (req_url (normalizeURL E
           (last (fst (request_begin E method url opts b) #
                  redirect_requests (new_events_of b (snd (request E method url opts b))))))) \<Longrightarrow>
         res_redirects res
           = Some (length (redirect_requests (new_events_of b (snd (request E method url opts b)))))"
proof -
  obtain req b1 where g: "request_begin E method url opts b = (req, b1)"
    by (cases "request_begin E method url opts b")
  obtain outcome b2 where p: "runPipeline E req b1 = (outcome, b2)"
    by (cases "runPipeline E req b1")
  from r g p obtain res0 where o: "outcome = Inr res0"
    by (cases outcome) (auto simp: request_def request_callback_def)
  from request_begin_events [of E "method" url opts b] g
  have e1: "events b1 = events b @ [EvRequest req]" by simp
  from request_begin_redirects [of E "method" url opts b] g have z: "redirects_of req = 0" by simp
  from runPipeline_redirects [OF d, of req b1 res0 b2] p o obtain evs where
    e2: "events b2 = events b1 @ evs"
    and u: "res_url res0 = Some (req_url (normalizeURL E (last (req # redirect_requests evs))))"
    and n: "is_http E (req_url (normalizeURL E (last (req # redirect_requests evs)))) \<longrightarrow>
              res_redirects res0 = Some (redirects_of req + length (redirect_requests evs))"
    by auto
  have ev: "\<exists>ev. events (snd (request E method url opts b)) = events b @ [EvRequest req] @ evs @ [ev]"
    by (simp add: request_def g p o request_callback_def Let_def emit_def e1 e2)
  then obtain ev where ev': "new_events_of b (snd (request E method url opts b)) = [EvRequest req] @ evs @ [ev]"
    and resp: "\<exists>rq r1. ev = EvResponse rq r1"
    by (auto simp: new_events_of_def request_def g p o request_callback_def Let_def emit_def e1 e2)
  from resp have rq: "redirect_requests (new_events_of b (snd (request E method url opts b)))
      = redirect_requests evs"
    by (auto simp: ev' redirect_requests_append)
  have ru: "res_url res = res_url res0"
    and rr: "res_redirects res = Some (case res_redirects res0 of None \<Rightarrow> 0 | Some k \<Rightarrow> k)"
    using r by (auto simp: request_def g p o request_callback_def Let_def)
  show "res_url res = Some (req_url (normalizeURL E
           (last (fst (request_begin E method url opts b) #
                  redirect_requests (new_events_of b (snd (request E method url opts b)))))))"
    using ru u g by (simp add: rq)
  assume "is_http E (req_url (normalizeURL E
           (last (fst (request_begin E method url opts b) #
                  redirect_requests (new_events_of b (snd (request E method url opts b)))))))"
  then have "is_http E (req_url (normalizeURL E (last (req # redirect_requests evs))))"
    using g by (simp add: rq)
  with n z rr
  show "res_redirects res
           = Some (length (redirect_requests (new_events_of b (snd (request E method url opts b)))))"
    by (simp add: rq)
qed

lemma followed_Redirect_iff: "followed outcome = Some rr \<longleftrightarrow> outcome = Redirect rr"
  by (cases outcome) (simp_all add: followed_def)

text \<open>
  Claim C1, as the code has it. \<^verbatim>\<open>handleResponse\<close> submits a follow-up request only
  for a response with status 301 or 307 to a GET or HEAD request, or with status 302 or
  303 to a request of any method, and only for an \<open>http\<close> or \<open>https\<close> request URL. The
  follow-up request always has the method GET (it keeps the method of a GET request, not
  that of a HEAD request) and the URL that the \<open>Location\<close> header resolves to. Such a
  response is followed whenever that URL is not empty and the redirect counter is below
  the maximum. A response of any other status, or with status 301 or 307 to another
  method, is terminal.
\<close>

theorem redirect_eligibility:
  "(case followed (fst (handleResponse E req res b)) of
      Some redirectRequest \<Rightarrow>
        redirect_eligible req res \<and> is_http E (req_url req) \<and>
        req_method redirectRequest = ''GET'' \<and>
        req_url redirectRequest = redirect_target E req res
    | None \<Rightarrow> True) \<and>
   (redirect_eligible req res \<and> is_http E (req_url req) \<and> redirect_target E req res \<noteq> [] \<and>
    redirects_of req < maxRedirects E \<longrightarrow>
      followed (fst (handleResponse E req res b)) \<noteq> None) \<and>
   (\<not> redirect_eligible req res \<longrightarrow>
      terminal (fst (handleResponse E req res b)) \<and>
      followed (fst (handleResponse E req res b)) = None)"
proof (intro conjI impI)
  show "case followed (fst (handleResponse E req res b)) of
      Some redirectRequest \<Rightarrow>
        redirect_eligible req res \<and> is_http E (req_url req) \<and>
        req_method redirectRequest = ''GET'' \<and>
        req_url redirectRequest = redirect_target E req res
    | None \<Rightarrow> True"
  proof (cases "followed (fst (handleResponse E req res b))")
    case None
    then show ?thesis by simp
  next
    case (Some rr)
    then have "handleResponse E req res b = (Redirect rr, snd (handleResponse E req res b))"
      by (simp add: followed_Redirect_iff prod_eq_iff)
    from handleResponse_Redirect_eligible [OF this] handleResponse_Redirect(3) [OF this] Some
    show ?thesis by simp
  qed
next
  assume "redirect_eligible req res \<and> is_http E (req_url req) \<and> redirect_target E req res \<noteq> [] \<and>
    redirects_of req < maxRedirects E"
  then have "\<exists>rr. fst (handleResponse E req res b) = Redirect rr"
    using handleResponse_follow [of E req res b] by auto
  then show "followed (fst (handleResponse E req res b)) \<noteq> None"
    by (auto simp: followed_def)
next
  assume n: "\<not> redirect_eligible req res"
  have "\<exists>r. fst (handleResponse E req res b) = Next r"
  proof (cases "is_http E (req_url req)")
    case True
    with n handleResponse_terminal(1) [of E req res b] show ?thesis by simp
  next
    case False
    then show ?thesis by (simp add: handleResponse_not_http)
  qed
  then show "terminal (fst (handleResponse E req res b))"
    and "followed (fst (handleResponse E req res b)) = None"
    by (auto simp: terminal_def followed_def)
qed

theorem redirect_eligibility_witness:
  "redirect_eligible (example_request ''get'' ''http://example.test/old'')
     (example_response 301 [(''Location'', ''/b'')]) \<and>
   is_http (example_env 5) (req_url (example_request ''get'' ''http://example.test/old'')) \<and>
   redirect_target (example_env 5) (example_request ''get'' ''http://example.test/old'')
     (example_response 301 [(''Location'', ''/b'')]) = ''http://example.test/b'' \<and>
   redirects_of (example_request ''get'' ''http://example.test/old'') < maxRedirects (example_env 5) \<and>
   map_option req_method
     (followed (fst (handleResponse (example_env 5) (example_request ''get'' ''http://example.test/old'')
        (example_response 301 [(''Location'', ''/b'')]) example_browser))) = Some ''GET'' \<and>
   \<not> redirect_eligible (example_request ''post'' ''http://example.test/old'')
       (example_response 301 [(''Location'', ''/b'')]) \<and>
   terminal (fst (handleResponse (example_env 5) (example_request ''post'' ''http://example.test/old'')
        (example_response 301 [(''Location'', ''/b'')]) example_browser))"
proof -
  let ?E = "example_env 5"
  let ?get = "example_request ''get'' ''http://example.test/old''"
  let ?post = "example_request ''post'' ''http://example.test/old''"
  let ?res = "example_response 301 [(''Location'', ''/b'')]"
  have h1: "redirect_eligible ?get ?res" by code_simp
  have h2: "is_http ?E (req_url ?get)" by code_simp
  have h3: "redirect_target ?E ?get ?res = ''http://example.test/b''" by code_simp
  have h4: "redirects_of ?get < maxRedirects ?E" by code_simp
  have h5: "\<not> redirect_eligible ?post ?res" by code_simp
  note t1 = redirect_eligibility [where E = ?E and req = ?get and res = ?res and b = example_browser]
  note t2 = redirect_eligibility [where E = ?E and req = ?post and res = ?res and b = example_browser]
  from t1 h1 h2 h3 h4
  have "followed (fst (handleResponse ?E ?get ?res example_browser)) \<noteq> None" by simp
  with t1 have c1: "map_option req_method
     (followed (fst (handleResponse ?E ?get ?res example_browser))) = Some ''GET''"
    by (cases "followed (fst (handleResponse ?E ?get ?res example_browser))") simp_all
  from t2 h5 have c2: "terminal (fst (handleResponse ?E ?post ?res example_browser))" by simp
  from h1 h2 h3 h4 h5 c1 c2 show ?thesis by simp
qed

text \<open>
  Claim C1 as stated fails for HEAD: the follow-up request of a 301 response to a HEAD
  request has the method GET.
\<close>

theorem head_redirect_uses_get_counterexample:
  "req_method (example_request ''head'' ''http://example.test/old'') = ''HEAD'' \<and>
   res_statusCode (example_response 301 [(''Location'', ''/b'')]) = Some 301 \<and>
   map_option req_method
     (followed (fst (handleResponse (example_env 5) (example_request ''head'' ''http://example.test/old'')
        (example_response 301 [(''Location'', ''/b'')]) example_browser))) = Some ''GET''"
  by code_simp

text \<open>
  Claim C3. When \<^verbatim>\<open>handleResponse\<close> computes a redirect URL for a response, it adds
  one to the redirect counter of the request. If the new counter does not exceed the
  maximum, the follow-up request carries it; if it does, the handler answers with the
  error \<open>TooManyRedirects\<close> and submits no follow-up request, and the response stage
  ends with that error. An error of the pipeline run on the follow-up request is the
  error of the enclosing run, and an error of the outermost run is the error of the
  fetch. With maximum 2 and the example server's chain of three redirecting responses,
  the fetch ends with that error after two redirects, with one resource in the history.
\<close>

theorem redirect_limit:
  assumes "is_http E (req_url req)" and "redirect_eligible req res"
      and "redirect_target E req res \<noteq> []"
  shows "(redirects_of req + 1 \<le> maxRedirects E \<longrightarrow>
            (case followed (fst (handleResponse E req res b)) of
               Some redirectRequest \<Rightarrow> req_redirects redirectRequest = Some (redirects_of req + 1)
             | None \<Rightarrow> False)) \<and>
         (redirects_of req + 1 > maxRedirects E \<longrightarrow>
            fst (handleResponse E req res b) = Failed (TooManyRedirects (maxRedirects E)) \<and>
            followed (fst (handleResponse E req res b)) = None \<and>
            fst (nextResponseHandler E req res (HandleResponse # handlers) b)
              = Inl (TooManyRedirects (maxRedirects E))) \<and>
         (\<forall>redirectRequest b1 error b2.
            handleResponse E req res b = (Redirect redirectRequest, b1) \<and>
            runPipeline E redirectRequest b1 = (Inl error, b2) \<longrightarrow>
              nextResponseHandler E req res (HandleResponse # handlers) b = (Inl error, b2)) \<and>
         (\<forall>method url opts b0 error.
            fst (runPipeline E (fst (request_begin E method url opts b0))
                   (snd (request_begin E method url opts b0))) = Inl error \<longrightarrow>
              fst (request E method url opts b0) = Inl error) \<and>
         fetch_summary (request (example_env 2) ''get'' ''http://example.test/hop1'' no_options
                          example_browser)
           = (Inl (TooManyRedirects 2), 2, 1)"
proof (intro conjI impI allI)
  assume le: "redirects_of req + 1 \<le> maxRedirects E"
  from handleResponse_follow [OF assms le, of b]
  show "case followed (fst (handleResponse E req res b)) of
               Some redirectRequest \<Rightarrow> req_redirects redirectRequest = Some (redirects_of req + 1)
             | None \<Rightarrow> False"
    by (auto simp: followed_def)
next
  assume gt: "redirects_of req + 1 > maxRedirects E"
  from handleResponse_too_many [OF assms gt, of b]
  show f: "fst (handleResponse E req res b) = Failed (TooManyRedirects (maxRedirects E))" .
  then show "followed (fst (handleResponse E req res b)) = None" by (simp add: followed_def)
  from f show "fst (nextResponseHandler E req res (HandleResponse # handlers) b)
              = Inl (TooManyRedirects (maxRedirects E))"
    by (cases "handleResponse E req res b") simp
next
  fix redirectRequest b1 error b2
  assume "handleResponse E req res b = (Redirect redirectRequest, b1) \<and>
            runPipeline E redirectRequest b1 = (Inl error, b2)"
  then show "nextResponseHandler E req res (HandleResponse # handlers) b = (Inl error, b2)"
    by (simp add: nextRequestHandler_runPipeline)
next
  fix meth url opts b0 error
  assume "fst (runPipeline E (fst (request_begin E meth url opts b0))
                   (snd (request_begin E meth url opts b0))) = Inl error"
  then show "fst (request E meth url opts b0) = Inl error"
    by (cases "request_begin E meth url opts b0";
        cases "runPipeline E (fst (request_begin E meth url opts b0))
                 (snd (request_begin E meth url opts b0))")
       (simp add: request_def request_callback_def)
next
  show "fetch_summary (request (example_env 2) ''get'' ''http://example.test/hop1'' no_options
                          example_browser)
           = (Inl (TooManyRedirects 2), 2, 1)"
    by code_simp
qed

theorem redirect_limit_witness:
  "is_http (example_env 1) (req_url (example_request ''get'' ''http://example.test/a'')) \<and>
   redirect_eligible (example_request ''get'' ''http://example.test/a'')
     (example_response 302 [(''Location'', ''/b'')]) \<and>
   redirect_target (example_env 1) (example_request ''get'' ''http://example.test/a'')
     (example_response 302 [(''Location'', ''/b'')]) = ''http://example.test/b'' \<and>
   redirects_of (example_request ''get'' ''http://example.test/a'') + 1 \<le> maxRedirects (example_env 1) \<and>
   map_option req_redirects
     (followed (fst (handleResponse (example_env 1) (example_request ''get'' ''http://example.test/a'')
        (example_response 302 [(''Location'', ''/b'')]) example_browser))) = Some (Some 1) \<and>
   redirects_of (example_request ''get'' ''http://example.test/a'') + 1 > maxRedirects (example_env 0) \<and>
   fst (handleResponse (example_env 0) (example_request ''get'' ''http://example.test/a'')
        (example_response 302 [(''Location'', ''/b'')]) example_browser)
     = Failed (TooManyRedirects 0)"
proof -
  let ?req = "example_request ''get'' ''http://example.test/a''"
  let ?res = "example_response 302 [(''Location'', ''/b'')]"
  have h1: "is_http (example_env n) (req_url ?req)" for n
    by (simp add: is_http_def example_env_def example_URL_def) code_simp
  have h2: "redirect_eligible ?req ?res" by code_simp
  have h3: "redirect_target (example_env 1) ?req ?res = ''http://example.test/b''" by code_simp
  have h3': "redirect_target (example_env 0) ?req ?res \<noteq> []" by code_simp
  have h4: "redirects_of ?req + 1 \<le> maxRedirects (example_env 1)" by code_simp
  have h5: "redirects_of ?req + 1 > maxRedirects (example_env 0)" by code_simp
  have z: "redirects_of ?req = 0" by code_simp
  have m: "maxRedirects (example_env 0) = 0" by code_simp
  have n3: "redirect_target (example_env 1) ?req ?res \<noteq> []" using h3 by simp
  from redirect_limit [OF h1 h2 n3, where b = example_browser] h4 z
  have c1: "map_option req_redirects
     (followed (fst (handleResponse (example_env 1) ?req ?res example_browser))) = Some (Some 1)"
    by (cases "followed (fst (handleResponse (example_env 1) ?req ?res example_browser))") simp_all
  from redirect_limit [OF h1 h2 h3', where b = example_browser] h5 m
  have c2: "fst (handleResponse (example_env 0) ?req ?res example_browser)
     = Failed (TooManyRedirects 0)" by simp
  from h1 [of 1] h2 h3 h4 h5 c1 c2 show ?thesis by simp
qed

text \<open>
  Claim C8, as the code has it. For a request whose URL has the protocol \<open>file:\<close>,
  \<^verbatim>\<open>makeHTTPRequest\<close> answers a method other than GET with status 405. For GET it
  decodes the path first: if \<^verbatim>\<open>decodeURI\<close> rejects the path, the exception is the
  error of the request stage, whatever the file system holds. Otherwise, for the decoded
  and normalised path, it answers 404 if the file does not exist and otherwise the bytes
  of the file as the body, or passes on the error of reading it, which ends the request
  stage. Neither the handler nor a run of the pipeline changes the file system.
\<close>

theorem file_transport:
  assumes "protocol (URL_parse (URL E) (req_url req)) = Some ''file:''"
  shows "(req_method req \<noteq> ''GET'' \<longrightarrow>
            makeHTTPRequest E req b = (Respond (empty_response\<lparr>res_statusCode := Some 405\<rparr>), req, b)) \<and>
         (req_method req = ''GET'' \<and>
          decodeURI E (string_or_null (pathname (URL_parse (URL E) (req_url req)))) = None \<longrightarrow>
            makeHTTPRequest E req b = (Fail URIError, req, b) \<and>
            nextRequestHandler E req (MakeHTTPRequest # handlers) b = (Inl URIError, req, b)) \<and>
         (req_method req = ''GET'' \<and>
          decodeURI E (string_or_null (pathname (URL_parse (URL E) (req_url req)))) = Some decoded \<longrightarrow>
            (fs b (Path_normalize E decoded) = None \<longrightarrow>
               makeHTTPRequest E req b
                 = (Respond (empty_response\<lparr>res_statusCode := Some 404\<rparr>), req, b)) \<and>
            (\<forall>buffer. fs b (Path_normalize E decoded) = Some (Inr buffer) \<longrightarrow>
               makeHTTPRequest E req b
                 = (Respond (empty_response\<lparr>res_body := BufferBody buffer\<rparr>), req, b)) \<and>
            (\<forall>error. fs b (Path_normalize E decoded) = Some (Inl error) \<longrightarrow>
               fst (makeHTTPRequest E req b) = Fail (ReadFileError error) \<and>
               snd (snd (makeHTTPRequest E req b)) = b \<and>
               nextRequestHandler E req (MakeHTTPRequest # handlers) b
                 = (Inl (ReadFileError error), req\<lparr>req_error := Some (ReadFileError error)\<rparr>, b))) \<and>
         fs (snd (snd (makeHTTPRequest E req b))) = fs b \<and>
         fs (snd (runPipeline E req b)) = fs b"
proof (intro conjI impI allI)
  show "fs (snd (snd (makeHTTPRequest E req b))) = fs b"
    using call_request_handler_frame [of E MakeHTTPRequest req b]
    by (cases "makeHTTPRequest E req b") simp
  show "fs (snd (runPipeline E req b)) = fs b"
    using pipeline_frame(1) [of E req "handlersInOrder (pipeline E)" b]
    by (simp add: nextRequestHandler_runPipeline)
qed (use assms in \<open>simp_all add: makeHTTPRequest_def Let_def\<close>)

theorem file_transport_witness:
  "protocol (URL_parse (URL (example_env 5)) (req_url (example_request ''post'' ''file:///etc/motd'')))
     = Some ''file:'' \<and>
   req_method (example_request ''post'' ''file:///etc/motd'') \<noteq> ''GET'' \<and>
   fst (makeHTTPRequest (example_env 5) (example_request ''post'' ''file:///etc/motd'') example_browser)
     = Respond (empty_response\<lparr>res_statusCode := Some 405\<rparr>) \<and>
   req_method (example_request ''get'' ''file:///tmp/50%'') = ''GET'' \<and>
   decodeURI (example_env 5) ''/tmp/50%'' = None \<and>
   fst (makeHTTPRequest (example_env 5) (example_request ''get'' ''file:///tmp/50%'') example_browser)
     = Fail URIError \<and>
   decodeURI (example_env 5) ''/etc/none'' = Some ''/etc/none'' \<and>
   fs example_browser ''/etc/none'' = None \<and>
   fst (makeHTTPRequest (example_env 5) (example_request ''get'' ''file:///etc/none'') example_browser)
     = Respond (empty_response\<lparr>res_statusCode := Some 404\<rparr>) \<and>
   fs example_browser ''/etc/motd'' = Some (Inr ''hello'') \<and>
   fst (makeHTTPRequest (example_env 5) (example_request ''get'' ''file:///etc/motd'') example_browser)
     = Respond (empty_response\<lparr>res_body := BufferBody ''hello''\<rparr>) \<and>
   fs example_browser ''/etc/shadow'' = Some (Inl ''EACCES'') \<and>
   fst (makeHTTPRequest (example_env 5) (example_request ''get'' ''file:///etc/shadow'') example_browser)
     = Fail (ReadFileError ''EACCES'')"
proof -
  let ?E = "example_env 5"
  have p: "protocol (URL_parse (URL ?E) (req_url (example_request m (''file://'' @ path)))) = Some ''file:''"
    for m path
    by (simp add: example_request_def request_begin_def Let_def example_env_def example_URL_def
        example_parse_def)
  have q: "string_or_null (pathname (URL_parse (URL ?E)
             (req_url (example_request m (''file://'' @ path))))) = path" for m path
    by (simp add: example_request_def request_begin_def Let_def example_env_def example_URL_def
        example_parse_def string_or_null_def)
  have n: "Path_normalize ?E path = path" for path by (simp add: example_env_def)
  have m1: "req_method (example_request ''post'' ''file:///etc/motd'') \<noteq> ''GET''" by code_simp
  have m2: "req_method (example_request ''get'' u) = ''GET''" for u
    by (simp add: example_request_def request_begin_def Let_def) code_simp
  have d0: "decodeURI ?E ''/tmp/50%'' = None" by code_simp
  have d1: "decodeURI ?E ''/etc/none'' = Some ''/etc/none''" by code_simp
  have d2: "decodeURI ?E ''/etc/motd'' = Some ''/etc/motd''" by code_simp
  have d3: "decodeURI ?E ''/etc/shadow'' = Some ''/etc/shadow''" by code_simp
  have f1: "fs example_browser ''/etc/none'' = None" by code_simp
  have f2: "fs example_browser ''/etc/motd'' = Some (Inr ''hello'')" by code_simp
  have f3: "fs example_browser ''/etc/shadow'' = Some (Inl ''EACCES'')" by code_simp
  note t = file_transport [where E = ?E and b = example_browser]
  from t [OF p [of "''post''" "''/etc/motd''"]] m1
  have r1: "fst (makeHTTPRequest ?E (example_request ''post'' ''file:///etc/motd'') example_browser)
     = Respond (empty_response\<lparr>res_statusCode := Some 405\<rparr>)" by simp
  from t [OF p [of "''get''" "''/tmp/50%''"]] m2 q [of "''get''" "''/tmp/50%''"] d0
  have r0: "fst (makeHTTPRequest ?E (example_request ''get'' ''file:///tmp/50%'') example_browser)
     = Fail URIError" by simp
  from t [OF p [of "''get''" "''/etc/none''"], where decoded = "''/etc/none''"]
    m2 q [of "''get''" "''/etc/none''"] d1 f1 n
  have r2: "fst (makeHTTPRequest ?E (example_request ''get'' ''file:///etc/none'') example_browser)
     = Respond (empty_response\<lparr>res_statusCode := Some 404\<rparr>)" by simp
  from t [OF p [of "''get''" "''/etc/motd''"], where decoded = "''/etc/motd''"]
    m2 q [of "''get''" "''/etc/motd''"] d2 f2 n
  have r3: "fst (makeHTTPRequest ?E (example_request ''get'' ''file:///etc/motd'') example_browser)
     = Respond (empty_response\<lparr>res_body := BufferBody ''hello''\<rparr>)" by simp
  from t [OF p [of "''get''" "''/etc/shadow''"], where decoded = "''/etc/shadow''"]
    m2 q [of "''get''" "''/etc/shadow''"] d3 f3 n
  have r4: "fst (makeHTTPRequest ?E (example_request ''get'' ''file:///etc/shadow'') example_browser)
     = Fail (ReadFileError ''EACCES'')" by simp
  from p [of "''post''" "''/etc/motd''"] m1 m2 d0 d1 f1 f2 f3 r0 r1 r2 r3 r4 show ?thesis by simp
qed

text \<open>
  Claim C8 as stated fails for a path that \<^verbatim>\<open>decodeURI\<close> rejects: a GET of
  \<open>file:///tmp/100%\<close>, a file that exists, and a GET of \<open>file:///tmp/50%\<close>, a file that
  does not, both end with the exception of \<^verbatim>\<open>decodeURI\<close> as the error of the fetch,
  not with the bytes of the file and not with status 404.
\<close>

theorem undecodable_file_path_counterexample:
  "protocol (URL_parse (URL (example_env 5)) (req_url (example_request ''get'' ''file:///tmp/100%'')))
     = Some ''file:'' \<and>
   req_method (example_request ''get'' ''file:///tmp/100%'') = ''GET'' \<and>
   fs example_browser ''/tmp/100%'' = Some (Inr ''full'') \<and>
   fst (makeHTTPRequest (example_env 5) (example_request ''get'' ''file:///tmp/100%'') example_browser)
     = Fail URIError \<and>
   fetch_summary (request (example_env 5) ''get'' ''file:///tmp/100%'' no_options example_browser)
     = (Inl URIError, 0, 1) \<and>
   fs example_browser ''/tmp/50%'' = None \<and>
   fst (makeHTTPRequest (example_env 5) (example_request ''get'' ''file:///tmp/50%'') example_browser)
     = Fail URIError \<and>
   fetch_summary (request (example_env 5) ''get'' ''file:///tmp/50%'' no_options example_browser)
     = (Inl URIError, 0, 1)"
  by code_simp

text \<open>
  Claim C2. \<^verbatim>\<open>request\<close> appends exactly one resource to the history, before the
  pipeline runs; a run of the pipeline, with any number of redirects, leaves the history
  as it is; so the history after the fetch is the history before it and that one
  resource. In the example of the claim, the fetch of \<open>/a\<close>, which the server redirects
  to \<open>/b\<close>, ends with the URL of \<open>/b\<close> and 1 for \<open>redirects\<close>. The claim fails for
  a redirect that leads to a \<open>file:\<close> URL: the fetch of \<open>/local\<close> follows one redirect
  (one redirect event) and ends with the URL and the bytes of the file, but with 0 for
  \<open>redirects\<close>. With the handlers of the class, the count is right whenever the last
  request submitted has an \<open>http\<close> or \<open>https\<close> URL (lemma \<open>request_redirects\<close>).
\<close>

theorem redirect_to_file_reports_no_redirect:
  "length (resources (snd (request_begin E meth url opts b))) = Suc (length (resources b)) \<and>
   resources (snd (runPipeline E req b')) = resources b' \<and>
   length (resources (snd (request E meth url opts b))) = Suc (length (resources b)) \<and>
   take (length (resources b)) (resources (snd (request E meth url opts b))) = resources b \<and>
   fetch_summary (request (example_env 5) ''get'' ''http://example.test/a'' no_options
     example_browser)
     = (Inr (Some ''http://example.test/b'', Some 200, Some 1), 1, 1) \<and>
   fetch_summary (request (example_env 5) ''get'' ''http://example.test/local'' no_options
     example_browser)
     = (Inr (Some ''file:///etc/motd'', Some 200, Some 0), 1, 1)"
proof (intro conjI)
  show "length (resources (snd (request_begin E meth url opts b))) = Suc (length (resources b))"
    by (simp add: request_begin_resources)
  show "resources (snd (runPipeline E req b')) = resources b'"
    by (rule runPipeline_resources)
  show "length (resources (snd (request E meth url opts b))) = Suc (length (resources b))"
    by (simp add: request_resources)
  show "take (length (resources b)) (resources (snd (request E meth url opts b))) = resources b"
    by (simp add: request_resources)
  show "fetch_summary (request (example_env 5) ''get'' ''http://example.test/a'' no_options
     example_browser)
     = (Inr (Some ''http://example.test/b'', Some 200, Some 1), 1, 1)"
    by code_simp
  show "fetch_summary (request (example_env 5) ''get'' ''http://example.test/local'' no_options
     example_browser)
     = (Inr (Some ''file:///etc/motd'', Some 200, Some 0), 1, 1)"
    by code_simp
qed

end
